theory Spec2Isabelle
  imports Main "HOL-Library.Word"
begin

unbundle bit_operations_syntax

section \<open>Data model\<close>

text \<open>
  The trap ingestion core of baize-monitor: the response engines (package \<open>pkg/snmp\<close>),
  the trap handler and the server coordinator (package \<open>internal/server/snmp\<close>).
  Go's \<open>byte\<close>, \<open>uint8\<close>-based enumerations and fixed-width integers are words;
  Go's \<open>int\<close> is taken at its 64-bit width.
\<close>

type_synonym byte = "8 word"

subsection \<open>gosnmp enumerations\<close>

text \<open>\<open>gosnmp.SnmpVersion\<close> is a \<open>uint8\<close>: \<open>Version1 = 0\<close>, \<open>Version2c = 1\<close>, \<open>Version3 = 3\<close>.\<close>

type_synonym SnmpVersion = "8 word"

abbreviation Version1 :: SnmpVersion where "Version1 \<equiv> 0"
abbreviation Version2c :: SnmpVersion where "Version2c \<equiv> 1"
abbreviation Version3 :: SnmpVersion where "Version3 \<equiv> 3"

text \<open>\<open>SnmpVersion.String()\<close> of gosnmp: "1", "2c", and "3" for everything else.\<close>

definition SnmpVersion_String :: "SnmpVersion \<Rightarrow> string" where
  "SnmpVersion_String v =
     (if v = Version1 then ''1'' else if v = Version2c then ''2c'' else ''3'')"

text \<open>\<open>gosnmp.PDUType\<close> is a \<open>byte\<close> holding the BER tag of the PDU.\<close>

type_synonym PDUType = "8 word"

abbreviation GetRequest :: PDUType where "GetRequest \<equiv> 0xa0"
abbreviation GetNextRequest :: PDUType where "GetNextRequest \<equiv> 0xa1"
abbreviation GetResponse :: PDUType where "GetResponse \<equiv> 0xa2"
abbreviation SetRequest :: PDUType where "SetRequest \<equiv> 0xa3"
abbreviation Trap :: PDUType where "Trap \<equiv> 0xa4"
abbreviation GetBulkRequest :: PDUType where "GetBulkRequest \<equiv> 0xa5"
abbreviation InformRequest :: PDUType where "InformRequest \<equiv> 0xa6"
abbreviation SNMPv2Trap :: PDUType where "SNMPv2Trap \<equiv> 0xa7"
abbreviation Report :: PDUType where "Report \<equiv> 0xa8"

text \<open>\<open>gosnmp.SnmpV3MsgFlags\<close>, a \<open>uint8\<close>.\<close>

type_synonym SnmpV3MsgFlags = "8 word"

abbreviation (input) NoAuthNoPriv :: SnmpV3MsgFlags where "NoAuthNoPriv \<equiv> 0x0"
abbreviation (input) AuthNoPriv :: SnmpV3MsgFlags where "AuthNoPriv \<equiv> 0x1"
abbreviation (input) AuthPriv :: SnmpV3MsgFlags where "AuthPriv \<equiv> 0x3"

datatype SnmpV3AuthProtocol = NoAuth | MD5 | SHA

datatype SnmpV3PrivProtocol = NoPriv | DES | AES | AES192 | AES256

subsection \<open>Errors\<close>

text \<open>
  The sentinel errors of \<open>pkg/snmp\<close>, and \<open>Errorf\<close> for the errors built with
  \<open>fmt.Errorf\<close>: the message prefix and, where the format wraps one, the cause.
\<close>

datatype error =
    ErrNilRequest
  | ErrUnsupportedVersion
  | ErrParseSNMPVersion
  | ErrIligelVersion
  | ErrDecodeSNMPrequest
  | ErrVersionMissMatch
  | ErrDisableVersion
  | ErrV1InformNotSupported
  | ErrV1TrapNotSupported
  | ErrInvalidInformRequest
  | ErrEmptyCommunity
  | ErrInvalidCommunity
  | ErrUnsupportedPDUType
  | Errorf string "error option"

text \<open>A Go panic, with its message.\<close>

datatype go_panic = Panic string

subsection \<open>Packets\<close>

text \<open>
  The dynamic type and value of a variable binding (\<open>SnmpPDU.Value\<close> is an
  \<open>interface{}\<close>). \<open>VOther\<close> stands for every dynamic type the handler has no case for,
  with the name of the type.
\<close>

datatype go_value =
    VNil
  | VInt "64 word"
  | VInt64 "64 word"
  | VUint "64 word"
  | VUint32 "32 word"
  | VUint64 "64 word"
  | VString string
  | VBytes "byte list"
  | VOther string

record SnmpPDU =
  Name :: string
  Type :: byte
  Value :: go_value

record UsmSecurityParameters =
  UserName :: string
  AuthenticationProtocol :: SnmpV3AuthProtocol
  AuthenticationPassphrase :: string
  PrivacyProtocol :: SnmpV3PrivProtocol
  PrivacyPassphrase :: string

text \<open>\<open>SnmpPacket.SecurityParameters\<close> is an interface: nil, the USM parameters, or another type.\<close>

datatype SnmpV3SecurityParameters =
    NoSecurityParameters
  | Usm UsmSecurityParameters
  | OtherSecurityParameters string

record SnmpPacket =
  Version :: SnmpVersion
  MsgFlags :: SnmpV3MsgFlags
  SecurityParameters :: SnmpV3SecurityParameters
  Community :: string
  PDUType :: PDUType
  RequestID :: "32 word"
  Error :: byte
  ErrorIndex :: byte
  Variables :: "SnmpPDU list"

record UDPAddr =
  IP :: "byte list"
  Port :: int

text \<open>
  \<open>models.RawPacket\<close>. \<open>Data\<close> is a slice that may be nil, \<open>Conn\<close> and \<open>RemoteAddr\<close>
  are pointers that may be nil; a connection is named by a number.
\<close>

record RawPacket =
  Data :: "byte list option"
  Conn :: "nat option"
  RemoteAddr :: "UDPAddr option"

text \<open>A nil slice reads as the empty byte sequence.\<close>

definition bytes_of :: "byte list option \<Rightarrow> byte list" where
  "bytes_of d = (case d of None \<Rightarrow> [] | Some bs \<Rightarrow> bs)"

section \<open>Community security model\<close>

record CommunitySecurityModel =
  readCommunity :: string
  readWriteCommunity :: string

definition NewCommunitySecurityModel :: "string \<Rightarrow> string \<Rightarrow> CommunitySecurityModel" where
  "NewCommunitySecurityModel rc rwc = \<lparr>readCommunity = rc, readWriteCommunity = rwc\<rparr>"

text \<open>\<open>Authenticate\<close>: \<open>None\<close> is the nil error. The packet is a decoded one, never nil.\<close>

definition Authenticate :: "CommunitySecurityModel \<Rightarrow> SnmpPacket \<Rightarrow> error option" where
  "Authenticate m packet =
     (if Community packet = [] then Some ErrEmptyCommunity
      else if PDUType packet = GetRequest \<or> PDUType packet = GetNextRequest
              \<or> PDUType packet = GetBulkRequest then
        (if Community packet \<noteq> readCommunity m \<and> Community packet \<noteq> readWriteCommunity m
         then Some ErrInvalidCommunity else None)
      else if PDUType packet = SetRequest then
        (if Community packet \<noteq> readWriteCommunity m then Some ErrInvalidCommunity else None)
      else if PDUType packet = InformRequest then None
      else if PDUType packet = Trap then
        (if Version packet \<noteq> Version1 then Some ErrVersionMissMatch else None)
      else if PDUType packet = SNMPv2Trap then
        (if Version packet \<noteq> Version2c then Some ErrVersionMissMatch else None)
      else Some ErrUnsupportedPDUType)"

text \<open>\<open>CheckAccess(version string, operation PDUType) (bool, error)\<close>.\<close>

definition CheckAccess ::
  "CommunitySecurityModel \<Rightarrow> string \<Rightarrow> PDUType \<Rightarrow> bool \<times> error option" where
  "CheckAccess m ver operation =
     (if operation = Trap then (True, None)
      else if operation = InformRequest \<and> ver = SnmpVersion_String Version2c
      then (True, None)
      else (False, None))"

section \<open>Configuration\<close>

text \<open>
  \<open>config.V1EngineConfig\<close> and \<open>config.V2cEngineConfig\<close> have the same three fields;
  one record serves both. A nil configuration pointer is \<open>None\<close>.
\<close>

record V1EngineConfig =
  ReadCommunity :: string
  ReadWriteCommunity :: string
  Enabled :: bool

type_synonym V2cEngineConfig = V1EngineConfig

record V3EngineConfig =
  Enabled_v3 :: bool
  UserName_v3 :: string
  MsgFlags_v3 :: string
  AuthProtocol_v3 :: string
  PrivProtocol_v3 :: string
  PrivPassphrase_v3 :: string
  AuthPassphrase_v3 :: string

record ResponseEngineFactoryConfig =
  V1Config :: "V1EngineConfig option"
  V2cConfig :: "V2cEngineConfig option"
  V3Config :: "V3EngineConfig option"

record ResponseManagerConfig =
  EngineFactoryConfig :: ResponseEngineFactoryConfig

section \<open>The libraries and the operating system\<close>

text \<open>\<open>asn1.RawValue\<close> of Go's \<open>encoding/asn1\<close>.\<close>

record RawValue =
  Class :: int
  Tag :: int
  IsCompound :: bool
  Bytes :: "byte list"
  FullBytes :: "byte list"

abbreviation (input) ClassUniversal :: int where "ClassUniversal \<equiv> 0"
abbreviation (input) TagInteger :: int where "TagInteger \<equiv> 2"
abbreviation (input) TagOctetString :: int where "TagOctetString \<equiv> 4"
abbreviation (input) TagSequence :: int where "TagSequence \<equiv> 16"

text \<open>
  The fields of \<open>gosnmp.GoSNMP\<close> that the engines set. Durations are nanoseconds, as
  \<open>time.Duration\<close> is.
\<close>

type_synonym Duration = int

abbreviation (input) Second :: Duration where "Second \<equiv> 1000000000"

record GoSNMP =
  Community_G :: string
  Version_G :: SnmpVersion
  Timeout_G :: Duration
  Retries_G :: int
  ExponentialTimeout_G :: bool
  UserSecurityModel_G :: bool
  SecurityParameters_G :: SnmpV3SecurityParameters
  MsgFlags_G :: SnmpV3MsgFlags

text \<open>One call of \<open>UDPConn.WriteToUDP\<close>: the connection, the bytes and the destination.\<close>

datatype net_event = UDPWrite "nat option" "byte list" "UDPAddr option"

text \<open>
  What the engines call outside this repository, as functions of their arguments:
  \<^item> \<open>asn1.Unmarshal\<close> into a \<open>RawValue\<close> and into an \<open>int\<close>, giving the value and the
    rest of the input, or failing;
  \<^item> \<open>GoSNMP.SnmpDecodePacket\<close> and \<open>SnmpPacket.MarshalMsg\<close> of gosnmp; \<open>MarshalMsg\<close>
    gives the bytes, or an error (\<open>None\<close>), or panics;
  \<^item> \<open>UDPConn.WriteToUDP\<close>, true when the write succeeds;
  \<^item> the clock and the random source behind \<open>generateEngineID\<close>.
\<close>

record libraries =
  asn1_Unmarshal_RawValue :: "byte list \<Rightarrow> (RawValue \<times> byte list) option"
  asn1_Unmarshal_int :: "byte list \<Rightarrow> (int \<times> byte list) option"
  SnmpDecodePacket :: "GoSNMP \<Rightarrow> byte list \<Rightarrow> SnmpPacket option"
  MarshalMsg :: "SnmpPacket \<Rightarrow> go_panic + byte list option"
  WriteToUDP :: "nat option \<Rightarrow> byte list \<Rightarrow> UDPAddr option \<Rightarrow> bool"
  generateEngineID :: "SnmpVersion \<Rightarrow> string"

text \<open>Go's conversion \<open>string(bs)\<close> of a byte slice.\<close>

definition string_of_bytes :: "byte list \<Rightarrow> string" where
  "string_of_bytes bs = map (\<lambda>b. char_of (unat b)) bs"

section \<open>Response engines\<close>

subsection \<open>The v1/v2c engine\<close>

record V1_V2cResponseEngine =
  enabled :: bool
  version :: SnmpVersion
  securityModel :: CommunitySecurityModel
  engineID :: string
  decodeerMap :: "string \<rightharpoonup> GoSNMP"

definition community_decoder :: "string \<Rightarrow> SnmpVersion \<Rightarrow> GoSNMP" where
  "community_decoder c v =
     \<lparr>Community_G = c, Version_G = v, Timeout_G = 0, Retries_G = 0,
      ExponentialTimeout_G = False, UserSecurityModel_G = False,
      SecurityParameters_G = NoSecurityParameters, MsgFlags_G = NoAuthNoPriv\<rparr>"

text \<open>The map literal is filled in order: with equal communities the read/write decoder stays.\<close>

definition NewV1_V2cResponseEngine ::
  "libraries \<Rightarrow> string \<Rightarrow> string \<Rightarrow> bool \<Rightarrow> SnmpVersion \<Rightarrow> go_panic + V1_V2cResponseEngine" where
  "NewV1_V2cResponseEngine lib rc rwc en v =
     (if en \<and> (rc = [] \<or> rwc = [])
      then Inl (Panic ''Can not enable engine without read and write communities'')
      else Inr \<lparr>enabled = en, version = v,
                securityModel = NewCommunitySecurityModel rc rwc,
                engineID = generateEngineID lib v,
                decodeerMap = [rc \<mapsto> community_decoder rc v, rwc \<mapsto> community_decoder rwc v]\<rparr>)"

definition createInformResponse :: "V1_V2cResponseEngine \<Rightarrow> SnmpPacket \<Rightarrow> error + SnmpPacket" where
  "createInformResponse e request =
     (if version e = Version1 then Inl ErrInvalidInformRequest
      else if version e = Version2c then
        Inr \<lparr>Version = version e, MsgFlags = 0, SecurityParameters = NoSecurityParameters,
             Community = Community request, PDUType = GetResponse,
             RequestID = RequestID request, Error = 0, ErrorIndex = 0, Variables = []\<rparr>
      else Inl ErrV1InformNotSupported)"

definition validateAndProcessSecurity :: "V1_V2cResponseEngine \<Rightarrow> SnmpPacket \<Rightarrow> error option" where
  "validateAndProcessSecurity e request = Authenticate (securityModel e) request"

definition createResponse :: "V1_V2cResponseEngine \<Rightarrow> SnmpPacket \<Rightarrow> error + SnmpPacket" where
  "createResponse e request =
     (if Version request \<noteq> Version1 then Inl ErrVersionMissMatch
      else (case validateAndProcessSecurity e request of
        Some err \<Rightarrow> Inl err
      | None \<Rightarrow>
          if PDUType request = Trap then Inl ErrV1TrapNotSupported
          else if PDUType request = InformRequest then createInformResponse e request
          else Inl ErrUnsupportedPDUType))"

definition shouldRespond :: "V1_V2cResponseEngine \<Rightarrow> SnmpPacket \<Rightarrow> bool" where
  "shouldRespond e request =
     (if PDUType request = Trap then False
      else if PDUType request = GetRequest \<or> PDUType request = GetNextRequest
              \<or> PDUType request = SetRequest then True
      else False)"

definition canProcessRequest :: "V1_V2cResponseEngine \<Rightarrow> SnmpPacket \<Rightarrow> bool" where
  "canProcessRequest e request =
     (if \<not> enabled e then False
      else if Version request = Version1 then
        (if PDUType request = Trap then True else False)
      else if Version request = Version2c then
        (if PDUType request = GetRequest \<or> PDUType request = GetNextRequest
            \<or> PDUType request = SetRequest then False
         else if PDUType request = InformRequest \<or> PDUType request = SNMPv2Trap then True
         else False)
      else False)"

definition parseSNMPv1v2cCommunity :: "libraries \<Rightarrow> byte list \<Rightarrow> error + string" where
  "parseSNMPv1v2cCommunity lib data =
     (case asn1_Unmarshal_RawValue lib data of
        None \<Rightarrow> Inl (Errorf ''failed to unmarshal outer sequence'' None)
      | Some (outerSeq, _) \<Rightarrow>
          if Tag outerSeq \<noteq> TagSequence \<or> Class outerSeq \<noteq> ClassUniversal
          then Inl (Errorf ''expected SEQUENCE at outer level'' None)
          else (case asn1_Unmarshal_RawValue lib (Bytes outerSeq) of
            None \<Rightarrow> Inl (Errorf ''failed to unmarshal version field'' None)
          | Some (versionField, rest) \<Rightarrow>
              (case asn1_Unmarshal_RawValue lib rest of
                 None \<Rightarrow> Inl (Errorf ''failed to unmarshal community'' None)
               | Some (community, _) \<Rightarrow>
                   if Tag community \<noteq> TagOctetString
                   then Inl (Errorf ''expected OCTET STRING for community'' None)
                   else Inr (string_of_bytes (Bytes community)))))"

text \<open>
  \<open>sendSNMPResponse\<close>: the panic of the marshaller or the error the function returns, and
  the call of \<open>WriteToUDP\<close> it makes when marshalling succeeded. Nothing on the way to the
  worker recovers from a panic.
\<close>

definition sendSNMPResponse ::
  "libraries \<Rightarrow> SnmpPacket \<Rightarrow> RawPacket \<Rightarrow> (go_panic + error option) \<times> net_event list" where
  "sendSNMPResponse lib response rawPacket =
     (case MarshalMsg lib response of
        Inl p \<Rightarrow> (Inl p, [])
      | Inr None \<Rightarrow> (Inr (Some (Errorf ''failed to marshal SNMP response'' None)), [])
      | Inr (Some data) \<Rightarrow>
          (if WriteToUDP lib (Conn rawPacket) data (RemoteAddr rawPacket) then Inr None
           else Inr (Some (Errorf ''failed to send SNMP response'' None)),
           [UDPWrite (Conn rawPacket) data (RemoteAddr rawPacket)]))"

text \<open>
  The outcome of a call of \<open>ProcessRequest\<close> or \<open>ResponseRequest\<close>: a panic (\<open>Inl\<close>), or
  the error or the decoded packet the call returns; and beside it the datagrams written on
  the way.
\<close>

type_synonym response_outcome = "(go_panic + error + SnmpPacket) \<times> net_event list"

text \<open>
  \<open>V1_V2cResponseEngine.ProcessRequest\<close>. A panic of \<open>sendSNMPResponse\<close> ends the call;
  the error it returns is dropped, as in the source.
\<close>

definition V1_V2c_ProcessRequest ::
  "libraries \<Rightarrow> V1_V2cResponseEngine \<Rightarrow> RawPacket \<Rightarrow> response_outcome" where
  "V1_V2c_ProcessRequest lib engine rawPacket =
     (case parseSNMPv1v2cCommunity lib (bytes_of (Data rawPacket)) of
        Inl pCErr \<Rightarrow> (Inr (Inl pCErr), [])
      | Inr requestCommunity \<Rightarrow>
          (case decodeerMap engine requestCommunity of
             None \<Rightarrow> (Inr (Inl ErrInvalidCommunity), [])
           | Some decoder \<Rightarrow>
               (case SnmpDecodePacket lib decoder (bytes_of (Data rawPacket)) of
                  None \<Rightarrow> (Inr (Inl ErrDecodeSNMPrequest), [])
                | Some snmpPacket \<Rightarrow>
                    if \<not> canProcessRequest engine snmpPacket
                    then (Inr (Inl ErrUnsupportedPDUType), [])
                    else (case validateAndProcessSecurity engine snmpPacket of
                      Some err \<Rightarrow>
                        (Inr (Inl (Errorf ''failed to validate and process security'' (Some err))),
                         [])
                    | None \<Rightarrow>
                        if \<not> shouldRespond engine snmpPacket then (Inr (Inr snmpPacket), [])
                        else (case createResponse engine snmpPacket of
                          Inl createRespErr \<Rightarrow>
                            (Inr (Inl (Errorf ''failed to create response'' (Some createRespErr))),
                             [])
                        | Inr response \<Rightarrow>
                            (case sendSNMPResponse lib response rawPacket of
                               (Inl p, written) \<Rightarrow> (Inl p, written)
                             | (Inr _, written) \<Rightarrow> (Inr (Inr snmpPacket), written)))))))"

subsection \<open>The v3 engine\<close>

record V3ResponseEngine =
  enabled_v3 :: bool
  version_v3 :: SnmpVersion
  engineID_v3 :: string
  decoder :: GoSNMP

definition parse_msg_flags :: "string \<Rightarrow> go_panic + SnmpV3MsgFlags" where
  "parse_msg_flags s =
     (if s = ''NoAuthNoPriv'' then Inr NoAuthNoPriv
      else if s = ''AuthNoPriv'' then Inr AuthNoPriv
      else if s = ''AuthPriv'' then Inr AuthPriv
      else Inl (Panic ''Invalid msg_flags''))"

definition parse_auth_protocol :: "string \<Rightarrow> go_panic + SnmpV3AuthProtocol" where
  "parse_auth_protocol s =
     (if s = ''MD5'' then Inr MD5
      else if s = ''SHA'' then Inr SHA
      else Inl (Panic ''Invalid auth_protocol''))"

definition parse_priv_protocol :: "string \<Rightarrow> go_panic + SnmpV3PrivProtocol" where
  "parse_priv_protocol s =
     (if s = ''DES'' then Inr DES
      else if s = ''AES'' then Inr AES
      else if s = ''AES192'' then Inr AES192
      else if s = ''AES256'' then Inr AES256
      else Inl (Panic ''Invalid priv_protocol''))"

definition NewV3ResponseEngine :: "libraries \<Rightarrow> V3EngineConfig \<Rightarrow> go_panic + V3ResponseEngine" where
  "NewV3ResponseEngine lib config =
     (case parse_msg_flags (MsgFlags_v3 config) of
        Inl p \<Rightarrow> Inl p
      | Inr msgFlags \<Rightarrow>
          (case parse_auth_protocol (AuthProtocol_v3 config) of
             Inl p \<Rightarrow> Inl p
           | Inr authProtocol \<Rightarrow>
               (case parse_priv_protocol (PrivProtocol_v3 config) of
                  Inl p \<Rightarrow> Inl p
                | Inr privProtocol \<Rightarrow>
                    Inr \<lparr>enabled_v3 = Enabled_v3 config, version_v3 = Version3,
                         engineID_v3 = generateEngineID lib Version3,
                         decoder =
                           \<lparr>Community_G = [], Version_G = Version3, Timeout_G = 30 * Second,
                            Retries_G = 3, ExponentialTimeout_G = True,
                            UserSecurityModel_G = True,
                            SecurityParameters_G =
                              Usm \<lparr>UserName = UserName_v3 config,
                                   AuthenticationProtocol = authProtocol,
                                   AuthenticationPassphrase = AuthPassphrase_v3 config,
                                   PrivacyProtocol = privProtocol,
                                   PrivacyPassphrase = PrivPassphrase_v3 config\<rparr>,
                            MsgFlags_G = msgFlags\<rparr>\<rparr>)))"

text \<open>
  \<open>V3ResponseEngine.ProcessRequest\<close>. The reply to an InformRequest is built from the
  request id and the community only: its message flags are zero and its security
  parameters are nil. A panic of \<open>sendSNMPResponse\<close> ends the call; the error it returns
  is dropped.
\<close>

definition V3_ProcessRequest ::
  "libraries \<Rightarrow> V3ResponseEngine \<Rightarrow> RawPacket \<Rightarrow> response_outcome" where
  "V3_ProcessRequest lib e rawPacket =
     (case SnmpDecodePacket lib (decoder e) (bytes_of (Data rawPacket)) of
        None \<Rightarrow> (Inr (Inl ErrDecodeSNMPrequest), [])
      | Some snmpPacket \<Rightarrow>
          if PDUType snmpPacket \<noteq> SNMPv2Trap \<and> PDUType snmpPacket \<noteq> InformRequest
          then (Inr (Inl ErrUnsupportedPDUType), [])
          else if PDUType snmpPacket = InformRequest then
            (case sendSNMPResponse lib
                    \<lparr>Version = version_v3 e, MsgFlags = 0,
                     SecurityParameters = NoSecurityParameters,
                     Community = Community snmpPacket, PDUType = GetResponse,
                     RequestID = RequestID snmpPacket, Error = 0, ErrorIndex = 0,
                     Variables = []\<rparr>
                    rawPacket of
               (Inl p, written) \<Rightarrow> (Inl p, written)
             | (Inr _, written) \<Rightarrow> (Inr (Inr snmpPacket), written))
          else (Inr (Inr snmpPacket), []))"

subsection \<open>The engine interface, the factory and the manager\<close>

text \<open>The two implementations of the interface \<open>SNMPResponseEngine\<close>.\<close>

datatype SNMPResponseEngine =
    V1_V2cEngine V1_V2cResponseEngine
  | V3Engine V3ResponseEngine

fun Enable :: "SNMPResponseEngine \<Rightarrow> bool" where
  "Enable (V1_V2cEngine e) = enabled e"
| "Enable (V3Engine e) = enabled_v3 e"

fun GetVersion :: "SNMPResponseEngine \<Rightarrow> SnmpVersion" where
  "GetVersion (V1_V2cEngine e) = version e"
| "GetVersion (V3Engine e) = version_v3 e"

fun ProcessRequest ::
  "libraries \<Rightarrow> SNMPResponseEngine \<Rightarrow> RawPacket \<Rightarrow> response_outcome" where
  "ProcessRequest lib (V1_V2cEngine e) rp = V1_V2c_ProcessRequest lib e rp"
| "ProcessRequest lib (V3Engine e) rp = V3_ProcessRequest lib e rp"

record ResponseEngineFactory =
  engines :: "SnmpVersion \<rightharpoonup> SNMPResponseEngine"

text \<open>
  \<open>NewResponseEngineFactory\<close>: the v1 engine is built whenever its configuration is
  present; the v2c and v3 engines only when theirs is present and enabled.
\<close>

definition NewResponseEngineFactory ::
  "libraries \<Rightarrow> ResponseEngineFactoryConfig \<Rightarrow> go_panic + ResponseEngineFactory" where
  "NewResponseEngineFactory lib config =
     (case (case V1Config config of
              None \<Rightarrow> Inr Map.empty
            | Some c1 \<Rightarrow>
                (case NewV1_V2cResponseEngine lib (ReadCommunity c1) (ReadWriteCommunity c1)
                        (Enabled c1) Version1 of
                   Inl p \<Rightarrow> Inl p
                 | Inr e \<Rightarrow> Inr [Version1 \<mapsto> V1_V2cEngine e])) of
        Inl p \<Rightarrow> Inl p
      | Inr engines1 \<Rightarrow>
          (case (case V2cConfig config of
                   None \<Rightarrow> Inr engines1
                 | Some c2 \<Rightarrow>
                     if Enabled c2 then
                       (case NewV1_V2cResponseEngine lib (ReadCommunity c2) (ReadWriteCommunity c2)
                               (Enabled c2) Version2c of
                          Inl p \<Rightarrow> Inl p
                        | Inr e \<Rightarrow> Inr (engines1(Version2c \<mapsto> V1_V2cEngine e)))
                     else Inr engines1) of
             Inl p \<Rightarrow> Inl p
           | Inr engines2 \<Rightarrow>
               (case V3Config config of
                  None \<Rightarrow> Inr \<lparr>engines = engines2\<rparr>
                | Some c3 \<Rightarrow>
                    if Enabled_v3 c3 then
                      (case NewV3ResponseEngine lib c3 of
                         Inl p \<Rightarrow> Inl p
                       | Inr e \<Rightarrow> Inr \<lparr>engines = engines2(Version3 \<mapsto> V3Engine e)\<rparr>)
                    else Inr \<lparr>engines = engines2\<rparr>)))"

definition createEngine :: "ResponseEngineFactory \<Rightarrow> SnmpVersion \<Rightarrow> error + SNMPResponseEngine" where
  "createEngine f v = (case engines f v of None \<Rightarrow> Inl ErrUnsupportedVersion | Some engine \<Rightarrow> Inr engine)"

record ResponseManager =
  factory :: ResponseEngineFactory

definition NewResponseManager :: "libraries \<Rightarrow> ResponseManagerConfig \<Rightarrow> go_panic + ResponseManager" where
  "NewResponseManager lib config =
     (case NewResponseEngineFactory lib (EngineFactoryConfig config) of
        Inl p \<Rightarrow> Inl p
      | Inr f \<Rightarrow> Inr \<lparr>factory = f\<rparr>)"

text \<open>
  \<open>parseSNMPVersion\<close>. On an error the source returns \<open>Version1\<close> beside it; the sum keeps
  the error only.
\<close>

definition parseSNMPVersion :: "libraries \<Rightarrow> byte list \<Rightarrow> error + SnmpVersion" where
  "parseSNMPVersion lib data =
     (case asn1_Unmarshal_RawValue lib data of
        None \<Rightarrow> Inl ErrParseSNMPVersion
      | Some (outerSeq, _) \<Rightarrow>
          if Tag outerSeq \<noteq> TagSequence \<or> Class outerSeq \<noteq> ClassUniversal
          then Inl ErrParseSNMPVersion
          else (case asn1_Unmarshal_RawValue lib (Bytes outerSeq) of
                  None \<Rightarrow> Inl ErrParseSNMPVersion
                | Some (ver, _) \<Rightarrow>
                    if Tag ver \<noteq> TagInteger then Inl ErrParseSNMPVersion
                    else (case asn1_Unmarshal_int lib (FullBytes ver) of
                            None \<Rightarrow> Inl ErrParseSNMPVersion
                          | Some (versionInt, _) \<Rightarrow>
                              if versionInt = 0 then Inr Version1
                              else if versionInt = 1 then Inr Version2c
                              else if versionInt = 3 then Inr Version3
                              else Inl ErrIligelVersion)))"

definition ResponseRequest ::
  "libraries \<Rightarrow> ResponseManager \<Rightarrow> RawPacket \<Rightarrow> response_outcome" where
  "ResponseRequest lib m rawPacket =
     (case Data rawPacket of
        None \<Rightarrow> (Inr (Inl ErrNilRequest), [])
      | Some data \<Rightarrow>
          (case parseSNMPVersion lib data of
             Inl err \<Rightarrow> (Inr (Inl err), [])
           | Inr packetVersion \<Rightarrow>
               if packetVersion \<noteq> Version1 \<and> packetVersion \<noteq> Version2c
                  \<and> packetVersion \<noteq> Version3
               then (Inr (Inl ErrVersionMissMatch), [])
               else (case createEngine (factory m) packetVersion of
                       Inl err \<Rightarrow> (Inr (Inl err), [])
                     | Inr engine \<Rightarrow>
                         if \<not> Enable engine then (Inr (Inl ErrDisableVersion), [])
                         else ProcessRequest lib engine rawPacket)))"

section \<open>Trap handler\<close>

text \<open>
  \<open>models.TrapMessage\<close>. Times are nanoseconds since the epoch; the zero \<open>time.Time\<close> is 0.
  Fields whose names the packet already uses carry the suffix \<open>_tm\<close>.
\<close>

record TrapMessage =
  ReceivedAt :: nat
  ProcessedAt :: nat
  SourceIP :: "byte list"
  SourcePort :: int
  AgentType :: string
  Hostname :: string
  Version_tm :: SnmpVersion
  Community_tm :: string
  SecurityModel :: string
  UserName_tm :: string
  PDUType_tm :: PDUType
  RequestID_tm :: "32 word"
  V1EnterpriseOID :: string
  V1GenericTrap :: "64 word"
  V1SpecificTrap :: "64 word"
  V2cV3Timestamp :: "32 word"
  VariableMap :: "string \<rightharpoonup> string"
  RawData :: "byte list option"
  NeedsResponse :: bool
  AlertType :: string
  Severity :: string
  Component :: string
  Message :: string
  SerialNumber :: string

text \<open>
  What the handler calls outside this repository: the clock, \<open>fmt.Sprintf\<close> with the verbs
  \<open>%v\<close> and \<open>%d\<close>, \<open>gosnmp.ToBigInt(v).String()\<close>, and the consumer of the egress channel
  (true when a send on the channel completes within the 100 ms the handler allows).
\<close>

record runtime =
  time_Now :: nat
  Sprintf_v :: "go_value \<Rightarrow> string"
  Sprintf_d :: "byte \<Rightarrow> string"
  ToBigInt_String :: "byte list \<Rightarrow> string"
  outputChan_accepts :: "TrapMessage \<Rightarrow> bool"

text \<open>
  The interface \<open>storage.DistributedLockerInterface\<close>, as far as the handler calls it.
  The lock backend has a state of its own, of type \<open>'l\<close>: \<open>AcquireLock\<close> takes that
  state, the deadline of its context, the key and the expiration, and gives its answer and
  the state after the call. \<open>ReleaseLock\<close> and \<open>Close\<close> are never called by the handler.
\<close>

record 'l DistributedLocker =
  AcquireLock :: "'l \<Rightarrow> Duration \<Rightarrow> string \<Rightarrow> Duration \<Rightarrow> (bool \<times> error option) \<times> 'l"
  GenerateTrapLockKey :: "byte list \<Rightarrow> string"

type_synonym ResponseManagerInterface = "RawPacket \<Rightarrow> response_outcome"

record 'l TrapHandler =
  locker :: "'l DistributedLocker"
  responseMgr :: ResponseManagerInterface
  workersWg :: nat
  running_h :: bool
  LockTimeout :: Duration
  stopChan_closed :: bool

definition newTrapHandler ::
  "'l DistributedLocker \<Rightarrow> ResponseManagerInterface \<Rightarrow> Duration \<Rightarrow> 'l TrapHandler" where
  "newTrapHandler dl rm lt =
     \<lparr>locker = dl, responseMgr = rm, workersWg = 0, running_h = False, LockTimeout = lt,
      stopChan_closed = False\<rparr>"

subsection \<open>Normalisation\<close>

fun enterpriseOID_of :: "runtime \<Rightarrow> go_value \<Rightarrow> string option" where
  "enterpriseOID_of rt VNil = None"
| "enterpriseOID_of rt (VBytes v) = Some (ToBigInt_String rt v)"
| "enterpriseOID_of rt (VString v) = Some v"
| "enterpriseOID_of rt (VInt v) = Some (Sprintf_v rt (VInt v))"
| "enterpriseOID_of rt (VInt64 v) = Some (Sprintf_v rt (VInt64 v))"
| "enterpriseOID_of rt (VUint v) = Some (Sprintf_v rt (VUint v))"
| "enterpriseOID_of rt (VUint64 v) = Some (Sprintf_v rt (VUint64 v))"
| "enterpriseOID_of rt v = Some (Sprintf_v rt v)"

text \<open>The type switch of the generic and of the specific trap field; \<open>int(v)\<close> of a \<open>uint32\<close> zero-extends.\<close>

fun trap_number_of :: "go_value \<Rightarrow> 64 word" where
  "trap_number_of VNil = 0"
| "trap_number_of (VInt v) = v"
| "trap_number_of (VInt64 v) = v"
| "trap_number_of (VUint32 v) = ucast v"
| "trap_number_of v = 0"

definition extractV1Fields :: "runtime \<Rightarrow> TrapMessage \<Rightarrow> SnmpPacket \<Rightarrow> TrapMessage" where
  "extractV1Fields rt trap snmpPacket =
     (if length (Variables snmpPacket) < 4
      then trap\<lparr>V1GenericTrap := 0, V1SpecificTrap := 0\<rparr>
      else
        let trap1 = (case enterpriseOID_of rt (Value (Variables snmpPacket ! 0)) of
                       None \<Rightarrow> trap
                     | Some oid \<Rightarrow> trap\<lparr>V1EnterpriseOID := oid\<rparr>);
            trap2 = trap1\<lparr>V1GenericTrap := trap_number_of (Value (Variables snmpPacket ! 2))\<rparr>
        in trap2\<lparr>V1SpecificTrap := trap_number_of (Value (Variables snmpPacket ! 3))\<rparr>)"

abbreviation (input) MaxUint32 :: "32 word" where "MaxUint32 \<equiv> 0xFFFFFFFF"

text \<open>
  The type switch on the first binding of a v2c/v3 packet. \<open>uint32(v)\<close> keeps the low 32
  bits; the comparisons of \<open>int\<close> and \<open>int64\<close> are signed.
\<close>

fun sysUpTime_of :: "go_value \<Rightarrow> 32 word" where
  "sysUpTime_of VNil = 0"
| "sysUpTime_of (VUint32 v) = v"
| "sysUpTime_of (VUint64 v) = (if v > 0xFFFFFFFF then MaxUint32 else ucast v)"
| "sysUpTime_of (VInt v) = (if sint v < 0 then 0 else ucast v)"
| "sysUpTime_of (VInt64 v) =
     (if sint v < 0 then 0 else if sint v > 0xFFFFFFFF then MaxUint32 else ucast v)"
| "sysUpTime_of v = 0"

definition extractV2cV3Fields :: "TrapMessage \<Rightarrow> SnmpPacket \<Rightarrow> TrapMessage" where
  "extractV2cV3Fields trap snmpPacket =
     (case Variables snmpPacket of
        [] \<Rightarrow> trap
      | firstVar # _ \<Rightarrow> trap\<lparr>V2cV3Timestamp := sysUpTime_of (Value firstVar)\<rparr>)"

definition extractV3SecurityInfo :: "runtime \<Rightarrow> TrapMessage \<Rightarrow> SnmpPacket \<Rightarrow> TrapMessage" where
  "extractV3SecurityInfo rt trap snmpPacket =
     (let level = MsgFlags snmpPacket AND 0x03;
          trap1 = trap\<lparr>SecurityModel :=
                    (if level = NoAuthNoPriv then ''noAuthNoPriv''
                     else if level = AuthNoPriv then ''authNoPriv''
                     else if level = AuthPriv then ''authPriv''
                     else ''Unknown('' @ Sprintf_d rt level @ '')'')\<rparr>
      in case SecurityParameters snmpPacket of
           Usm params \<Rightarrow> trap1\<lparr>UserName_tm := UserName params\<rparr>
         | _ \<Rightarrow> trap1)"

text \<open>The loop over the bindings: a later binding of the same name overwrites an earlier one.\<close>

fun fill_VariableMap :: "runtime \<Rightarrow> (string \<rightharpoonup> string) \<Rightarrow> SnmpPDU list \<Rightarrow> (string \<rightharpoonup> string)" where
  "fill_VariableMap rt m [] = m"
| "fill_VariableMap rt m (pdu # pdus) =
     fill_VariableMap rt (m(Name pdu \<mapsto> Sprintf_v rt (Value pdu))) pdus"

text \<open>
  \<open>convertToTrapMessage\<close> reads \<open>rawPacket.RemoteAddr.IP\<close>: a nil \<open>RemoteAddr\<close> is a nil
  pointer dereference.
\<close>

definition convertToTrapMessage ::
  "runtime \<Rightarrow> SnmpPacket \<Rightarrow> RawPacket \<Rightarrow> go_panic + TrapMessage" where
  "convertToTrapMessage rt snmpPacket rawPacket =
     (case RemoteAddr rawPacket of
        None \<Rightarrow> Inl (Panic ''invalid memory address or nil pointer dereference'')
      | Some addr \<Rightarrow>
          let trap = \<lparr>ReceivedAt = time_Now rt, ProcessedAt = 0,
                      SourceIP = IP addr, SourcePort = Port addr,
                      AgentType = [], Hostname = [],
                      Version_tm = Version snmpPacket, Community_tm = Community snmpPacket,
                      SecurityModel = [], UserName_tm = [],
                      PDUType_tm = PDUType snmpPacket, RequestID_tm = RequestID snmpPacket,
                      V1EnterpriseOID = [], V1GenericTrap = 0, V1SpecificTrap = 0,
                      V2cV3Timestamp = 0, VariableMap = Map.empty,
                      RawData = Data rawPacket,
                      NeedsResponse = (PDUType snmpPacket = InformRequest),
                      AlertType = [], Severity = [], Component = [], Message = [],
                      SerialNumber = []\<rparr>;
              trap1 = (if Version snmpPacket = Version1 then extractV1Fields rt trap snmpPacket
                       else if Version snmpPacket = Version2c \<or> Version snmpPacket = Version3
                       then extractV2cV3Fields trap snmpPacket
                       else trap);
              trap2 = trap1\<lparr>VariableMap :=
                         fill_VariableMap rt (VariableMap trap1) (Variables snmpPacket)\<rparr>
          in Inr (if Version snmpPacket = Version3
                  then extractV3SecurityInfo rt trap2 snmpPacket
                  else trap2))"

subsection \<open>Workers\<close>

text \<open>
  What a worker does that another component can observe, in order: the call of
  \<open>AcquireLock\<close> (context deadline, key, expiration) with its answer, the call of the
  response manager, the datagrams the manager wrote, and the outcome of the send on the
  egress channel.
\<close>

datatype event =
    LockAcquire Duration string Duration bool "error option"
  | Respond RawPacket
  | Net net_event
  | Emit TrapMessage
  | Discard TrapMessage

definition sendProcessedTrapMessage :: "runtime \<Rightarrow> TrapMessage \<Rightarrow> event list" where
  "sendProcessedTrapMessage rt trapMessage =
     (if outputChan_accepts rt trapMessage then [Emit trapMessage] else [Discard trapMessage])"

text \<open>
  \<open>processTrap\<close> on a state \<open>l\<close> of the lock backend: the events, the panic if the call
  ended in one, and the state of the backend afterwards.
\<close>

definition processTrap ::
  "runtime \<Rightarrow> 'l TrapHandler \<Rightarrow> 'l \<Rightarrow> RawPacket \<Rightarrow> event list \<times> go_panic option \<times> 'l" where
  "processTrap rt h l rawPacket =
     (let lockKey = GenerateTrapLockKey (locker h) (bytes_of (Data rawPacket));
          ((acquired, err), l') = AcquireLock (locker h) l (1 * Second) lockKey (LockTimeout h);
          ev_lock = LockAcquire (1 * Second) lockKey (LockTimeout h) acquired err
      in if err \<noteq> None then ([ev_lock], None, l')
         else if \<not> acquired then ([ev_lock], None, l')
         else (case responseMgr h rawPacket of
                 (Inl p, net) \<Rightarrow> ([ev_lock, Respond rawPacket] @ map Net net, Some p, l')
               | (Inr (Inl err), net) \<Rightarrow> ([ev_lock, Respond rawPacket] @ map Net net, None, l')
               | (Inr (Inr snmpPacket), net) \<Rightarrow>
                   (case convertToTrapMessage rt snmpPacket rawPacket of
                      Inl p \<Rightarrow> ([ev_lock, Respond rawPacket] @ map Net net, Some p, l')
                    | Inr trapMessage \<Rightarrow>
                        ([ev_lock, Respond rawPacket] @ map Net net
                           @ sendProcessedTrapMessage rt trapMessage, None, l'))))"

text \<open>
  A worker, on the packets it dequeues until the stop channel or the closed ingress channel
  ends its loop; a panic ends it at once. A call of \<open>processTrap\<close> touches the lock
  backend once, so the packets of several workers on one backend are taken in the order of
  their calls of \<open>AcquireLock\<close>.
\<close>

fun worker ::
  "runtime \<Rightarrow> 'l TrapHandler \<Rightarrow> 'l \<Rightarrow> RawPacket list \<Rightarrow> event list \<times> go_panic option \<times> 'l" where
  "worker rt h l [] = ([], None, l)"
| "worker rt h l (rawPacket # rest) =
     (case processTrap rt h l rawPacket of
        (evs, Some p, l') \<Rightarrow> (evs, Some p, l')
      | (evs, None, l') \<Rightarrow> (case worker rt h l' rest of (evs', r) \<Rightarrow> (evs @ evs', r)))"

text \<open>The TrapMessages put on the egress channel, and the calls of the response manager.\<close>

fun emitted :: "event list \<Rightarrow> TrapMessage list" where
  "emitted [] = []"
| "emitted (Emit m # evs) = m # emitted evs"
| "emitted (_ # evs) = emitted evs"

fun responded :: "event list \<Rightarrow> RawPacket list" where
  "responded [] = []"
| "responded (Respond r # evs) = r # responded evs"
| "responded (_ # evs) = responded evs"

text \<open>The calls of \<open>AcquireLock\<close>, and the keys of those that claimed the lock.\<close>

fun lock_calls :: "event list \<Rightarrow> (Duration \<times> string \<times> Duration) list" where
  "lock_calls [] = []"
| "lock_calls (LockAcquire d k ttl a e # evs) = (d, k, ttl) # lock_calls evs"
| "lock_calls (_ # evs) = lock_calls evs"

fun acquisitions :: "event list \<Rightarrow> string list" where
  "acquisitions [] = []"
| "acquisitions (LockAcquire d k ttl a e # evs) =
     (if a \<and> e = None then k # acquisitions evs else acquisitions evs)"
| "acquisitions (_ # evs) = acquisitions evs"

subsection \<open>Handler life cycle\<close>

text \<open>\<open>start\<close> spawns one worker per count; a count below 1 spawns none.\<close>

definition handler_start :: "'l TrapHandler \<Rightarrow> int \<Rightarrow> error option \<times> 'l TrapHandler" where
  "handler_start h workerCount =
     (if running_h h then (Some (Errorf ''trap handler already started'' None), h)
      else (None, h\<lparr>running_h := True, workersWg := workersWg h + nat workerCount\<rparr>))"

text \<open>
  \<open>stop\<close> closes the stop channel and waits for the workers; closing a channel that is
  already closed panics.
\<close>

definition handler_stop :: "'l TrapHandler \<Rightarrow> go_panic + (error option \<times> 'l TrapHandler)" where
  "handler_stop h =
     (if \<not> running_h h then Inr (Some (Errorf ''trap handler already stopped'' None), h)
      else if stopChan_closed h then Inl (Panic ''close of closed channel'')
      else Inr (None, h\<lparr>stopChan_closed := True, workersWg := 0, running_h := False\<rparr>))"

section \<open>Server coordinator\<close>

record ReceiverConfig =
  Port_conf :: "16 word"

record TrapHandlerConfig =
  WorkerCount :: int
  QueueSize :: int
  LockTimeout_conf :: int
  ProcessingTimeout :: int

text \<open>\<open>MidChannelSize\<close> is a Go \<open>int\<close> of 64 bits, read as signed.\<close>

record SNMPServerConfig =
  ReceiverConf :: ReceiverConfig
  TrapHandlerConf :: TrapHandlerConfig
  MidChannelSize :: "64 word"

text \<open>
  The receiver, as far as the coordinator drives it. Whether the port can be bound and
  whether the listener closes without error is decided by the operating system; whether a
  channel of a given capacity is within the range the runtime allocates is decided by the
  Go runtime.
\<close>

record udpReceiver =
  running_r :: bool
  listener :: "int option"

record sockets =
  ListenUDP :: "int \<Rightarrow> bool"
  listener_Close :: "int \<Rightarrow> bool"
  makechan_in_range :: "int \<Rightarrow> bool"

definition newUDPReceiver :: udpReceiver where
  "newUDPReceiver = \<lparr>running_r = False, listener = None\<rparr>"

definition receiver_start :: "sockets \<Rightarrow> udpReceiver \<Rightarrow> int \<Rightarrow> error option \<times> udpReceiver" where
  "receiver_start os r port =
     (if running_r r then (Some (Errorf ''UDP receiver already started'' None), r)
      else if \<not> ListenUDP os port then (Some (Errorf ''failed to listen on UDP port'' None), r)
      else (None, r\<lparr>listener := Some port, running_r := True\<rparr>))"


abbreviation (input) PipelineBufferScale :: "64 word" where "PipelineBufferScale \<equiv> 2"

text \<open>The channels are known by their capacity; \<open>None\<close> is the nil channel before \<open>Start\<close>.\<close>

record 'l SNMPServer =
  config :: SNMPServerConfig
  running :: bool
  receiver :: "udpReceiver option"
  handler :: "'l TrapHandler option"
  distributedLocker :: "'l DistributedLocker"
  responseMgr_s :: ResponseManagerInterface
  midChannel :: "int option"
  outChannel :: "int option"

definition NewSNMPServer ::
  "SNMPServerConfig \<Rightarrow> 'l DistributedLocker \<Rightarrow> ResponseManagerInterface \<Rightarrow> 'l SNMPServer" where
  "NewSNMPServer cfg dl rm =
     \<lparr>config = cfg, running = False, receiver = None, handler = None,
      distributedLocker = dl, responseMgr_s = rm, midChannel = None, outChannel = None\<rparr>"

text \<open>
  \<open>make\<close> of a channel panics when the size is negative or out of the range of the
  runtime.
\<close>

definition makechan_panics :: "sockets \<Rightarrow> int \<Rightarrow> bool" where
  "makechan_panics os n = (n < 0 \<or> \<not> makechan_in_range os n)"

text \<open>
  \<open>Start\<close>. \<open>time.Duration(n)\<close> converts the integer as it is: a \<open>Duration\<close> counts
  nanoseconds. The size of the egress channel is the product in 64 bits, which wraps; the
  ingress channel is made first.
\<close>

definition Start :: "sockets \<Rightarrow> 'l SNMPServer \<Rightarrow> go_panic + (error option \<times> 'l SNMPServer)" where
  "Start os s =
     (if running s then Inr (Some (Errorf ''SNMP server already started'' None), s)
      else
        let outChannelSize = MidChannelSize (config s) * PipelineBufferScale
        in if makechan_panics os (sint (MidChannelSize (config s)))
              \<or> makechan_panics os (sint outChannelSize)
           then Inl (Panic ''makechan: size out of range'')
           else
             let s1 = s\<lparr>midChannel := Some (sint (MidChannelSize (config s))),
                        outChannel := Some (sint outChannelSize)\<rparr>;
                 lockTimeout = LockTimeout_conf (TrapHandlerConf (config s));
                 h = newTrapHandler (distributedLocker s) (responseMgr_s s) lockTimeout
             in (case handler_start h (WorkerCount (TrapHandlerConf (config s))) of
                   (Some err, h') \<Rightarrow>
                     Inr (Some (Errorf ''failed to start trap handler'' (Some err)),
                          s1\<lparr>handler := Some h'\<rparr>)
                 | (None, h') \<Rightarrow>
                     (case receiver_start os newUDPReceiver
                             (uint (Port_conf (ReceiverConf (config s)))) of
                        (Some err, r') \<Rightarrow>
                          (case handler_stop h' of
                             Inl p \<Rightarrow> Inl p
                           | Inr (_, h'') \<Rightarrow>
                               Inr (Some (Errorf ''failed to start UDP receiver'' (Some err)),
                                    s1\<lparr>handler := Some h'', receiver := Some r'\<rparr>))
                      | (None, r') \<Rightarrow>
                          Inr (None, s1\<lparr>handler := Some h', receiver := Some r',
                                         running := True\<rparr>))))"




section \<open>Sample inputs\<close>

text \<open>
  Concrete libraries, engines and datagrams on which the results below are evaluated.

  \<open>tlv_Unmarshal_RawValue\<close> reads one element in the short definite form of BER (one tag
  byte with a tag number below 31, one length byte below 128), which is the form of the
  headers of the sample datagrams. \<open>tlv_Unmarshal_int\<close> reads a universal primitive
  INTEGER of 1 to 8 content bytes in minimal two's complement form.
\<close>

definition tlv_Unmarshal_RawValue :: "byte list \<Rightarrow> (RawValue \<times> byte list) option" where
  "tlv_Unmarshal_RawValue bs =
     (case bs of
        t # l # rest \<Rightarrow>
          if t AND 0x1f \<noteq> 0x1f \<and> l < 0x80 \<and> unat l \<le> length rest
          then Some (\<lparr>Class = uint (drop_bit 6 t), Tag = uint (t AND 0x1f),
                      IsCompound = (t AND 0x20 = 0x20), Bytes = take (unat l) rest,
                      FullBytes = t # l # take (unat l) rest\<rparr>,
                     drop (unat l) rest)
          else None
      | _ \<Rightarrow> None)"

fun be_int :: "int \<Rightarrow> byte list \<Rightarrow> int" where
  "be_int acc [] = acc"
| "be_int acc (b # bs) = be_int (acc * 256 + uint b) bs"

definition tlv_Unmarshal_int :: "byte list \<Rightarrow> (int \<times> byte list) option" where
  "tlv_Unmarshal_int bs =
     (case tlv_Unmarshal_RawValue bs of
        None \<Rightarrow> None
      | Some (v, rest) \<Rightarrow>
          (case Bytes v of
             [] \<Rightarrow> None
           | b # bs' \<Rightarrow>
               if Class v \<noteq> ClassUniversal \<or> Tag v \<noteq> TagInteger \<or> IsCompound v
                  \<or> length (Bytes v) > 8
                  \<or> (bs' \<noteq> [] \<and> b = 0x00 \<and> hd bs' < 0x80)
                  \<or> (bs' \<noteq> [] \<and> b = 0xff \<and> hd bs' \<ge> 0x80)
               then None
               else Some (if b \<ge> 0x80 then be_int 0 (Bytes v) - 2 ^ (8 * length (Bytes v))
                          else be_int 0 (Bytes v), rest)))"

text \<open>
  A v2c InformRequest with community "public" and request id \<open>0xDEADBEEF\<close>, a v1 Trap, a
  message with the reserved version 2, a v3 InformRequest, and the packets the decoder
  gives for the two InformRequests.
\<close>

definition inform_v2c_bytes :: "byte list" where
  "inform_v2c_bytes =
     [0x30, 0x1c, 0x02, 0x01, 0x01, 0x04, 0x06, 0x70, 0x75, 0x62, 0x6c, 0x69, 0x63,
      0xa6, 0x0f, 0x02, 0x05, 0x00, 0xde, 0xad, 0xbe, 0xef, 0x02, 0x01, 0x00,
      0x02, 0x01, 0x00, 0x30, 0x00]"

definition inform_v2c_packet :: SnmpPacket where
  "inform_v2c_packet =
     \<lparr>Version = Version2c, MsgFlags = 0, SecurityParameters = NoSecurityParameters,
      Community = ''public'', PDUType = InformRequest, RequestID = 0xDEADBEEF,
      Error = 0, ErrorIndex = 0, Variables = []\<rparr>"

text \<open>
  The v3 message: version 3; the global data (message id 1, maximal size 65507, flags
  reportable without authentication and privacy, security model USM); the USM parameters
  (engine id, boots 0, time 0, user "baize", no authentication and privacy parameters);
  and the scoped PDU with an InformRequest of request id 7 and no bindings. The decoded
  packet has the USM parameters of the decoder, with the user of the message.
\<close>

definition inform_v3_bytes :: "byte list" where
  "inform_v3_bytes =
     [0x30, 0x47, 0x02, 0x01, 0x03,
      0x30, 0x0e, 0x02, 0x01, 0x01, 0x02, 0x03, 0x00, 0xff, 0xe3, 0x04, 0x01, 0x04,
      0x02, 0x01, 0x03,
      0x04, 0x1a, 0x30, 0x18, 0x04, 0x05, 0x80, 0x00, 0x00, 0x00, 0x01, 0x02, 0x01, 0x00,
      0x02, 0x01, 0x00, 0x04, 0x05, 0x62, 0x61, 0x69, 0x7a, 0x65, 0x04, 0x00, 0x04, 0x00,
      0x30, 0x16, 0x04, 0x05, 0x80, 0x00, 0x00, 0x00, 0x01, 0x04, 0x00,
      0xa6, 0x0b, 0x02, 0x01, 0x07, 0x02, 0x01, 0x00, 0x02, 0x01, 0x00, 0x30, 0x00]"

definition inform_v3_packet :: SnmpPacket where
  "inform_v3_packet =
     \<lparr>Version = Version3, MsgFlags = 0x04,
      SecurityParameters =
        Usm \<lparr>UserName = ''baize'', AuthenticationProtocol = MD5,
             AuthenticationPassphrase = ''AuthPassphrasetest'', PrivacyProtocol = AES,
             PrivacyPassphrase = ''PrivPassphrasetest''\<rparr>,
      Community = [], PDUType = InformRequest, RequestID = 7,
      Error = 0, ErrorIndex = 0, Variables = []\<rparr>"

text \<open>
  A message whose first element is a well-formed INTEGER of nine content bytes, the number
  \<open>2 ^ 64\<close>, which no 64-bit \<open>int\<close> holds.
\<close>

definition wide_version_bytes :: "byte list" where
  "wide_version_bytes =
     [0x30, 0x0b, 0x02, 0x09, 0x01, 0x00, 0x00, 0x00, 0x00, 0x00, 0x00, 0x00, 0x00]"

definition trap_v1_bytes :: "byte list" where
  "trap_v1_bytes =
     [0x30, 0x0d, 0x02, 0x01, 0x00, 0x04, 0x06, 0x70, 0x75, 0x62, 0x6c, 0x69, 0x63, 0xa4, 0x00]"

definition reserved_version_bytes :: "byte list" where
  "reserved_version_bytes = [0x30, 0x03, 0x02, 0x01, 0x02]"

definition sample_decode :: "GoSNMP \<Rightarrow> byte list \<Rightarrow> SnmpPacket option" where
  "sample_decode g data =
     (if data = inform_v2c_bytes then Some inform_v2c_packet
      else if data = inform_v3_bytes then Some inform_v3_packet
      else None)"

text \<open>
  A marshaller that, as gosnmp does, calls a method of the security parameters of a
  version 3 packet, which is a nil pointer dereference when they are nil; for the packets
  it marshals it gives one byte.
\<close>

definition sample_MarshalMsg :: "SnmpPacket \<Rightarrow> go_panic + byte list option" where
  "sample_MarshalMsg p =
     (if Version p = Version3 \<and> SecurityParameters p = NoSecurityParameters
      then Inl (Panic ''invalid memory address or nil pointer dereference'')
      else Inr (Some [PDUType p]))"

text \<open>A library with that marshaller whose socket accepts every write.\<close>

definition sample_lib :: libraries where
  "sample_lib =
     \<lparr>asn1_Unmarshal_RawValue = tlv_Unmarshal_RawValue,
      asn1_Unmarshal_int = tlv_Unmarshal_int,
      SnmpDecodePacket = sample_decode,
      MarshalMsg = sample_MarshalMsg,
      WriteToUDP = (\<lambda>c d a. True),
      generateEngineID = (\<lambda>v. ''engine'')\<rparr>"

definition sample_addr :: UDPAddr where
  "sample_addr = \<lparr>IP = [192, 168, 1, 100], Port = 1620\<rparr>"

definition raw_of :: "byte list \<Rightarrow> RawPacket" where
  "raw_of bs = \<lparr>Data = Some bs, Conn = Some 0, RemoteAddr = Some sample_addr\<rparr>"

definition community_config :: "bool \<Rightarrow> V1EngineConfig" where
  "community_config en =
     \<lparr>ReadCommunity = ''public'', ReadWriteCommunity = ''private'', Enabled = en\<rparr>"

definition v3_config :: "bool \<Rightarrow> V3EngineConfig" where
  "v3_config en =
     \<lparr>Enabled_v3 = en, UserName_v3 = ''baize'', MsgFlags_v3 = ''NoAuthNoPriv'',
      AuthProtocol_v3 = ''MD5'', PrivProtocol_v3 = ''AES'',
      PrivPassphrase_v3 = ''PrivPassphrasetest'', AuthPassphrase_v3 = ''AuthPassphrasetest''\<rparr>"

text \<open>All three versions configured, each with its own enabled flag.\<close>

definition factory_config :: "bool \<Rightarrow> bool \<Rightarrow> bool \<Rightarrow> ResponseEngineFactoryConfig" where
  "factory_config en1 en2 en3 =
     \<lparr>V1Config = Some (community_config en1), V2cConfig = Some (community_config en2),
      V3Config = Some (v3_config en3)\<rparr>"

definition sample_runtime :: runtime where
  "sample_runtime =
     \<lparr>time_Now = 0, Sprintf_v = (\<lambda>v. ''v''), Sprintf_d = (\<lambda>b. ''d''),
      ToBigInt_String = (\<lambda>bs. ''n''), outputChan_accepts = (\<lambda>m. True)\<rparr>"

text \<open>
  A locker that gives the same answer to every call, and a set-if-absent backend whose
  state is the list of the keys held (no key expires while the packets are processed).
\<close>

definition locker_answering :: "bool \<times> error option \<Rightarrow> unit DistributedLocker" where
  "locker_answering r =
     \<lparr>AcquireLock = (\<lambda>l deadline key ttl. (r, l)), GenerateTrapLockKey = (\<lambda>d. ''mock_key'')\<rparr>"

definition setnx_locker :: "string list DistributedLocker" where
  "setnx_locker =
     \<lparr>AcquireLock = (\<lambda>held deadline key ttl.
         if key \<in> set held then ((False, None), held) else ((True, None), key # held)),
      GenerateTrapLockKey = (\<lambda>d. ''trap_lock:'' @ string_of_bytes d)\<rparr>"

definition v2c_engine :: V1_V2cResponseEngine where
  "v2c_engine =
     \<lparr>enabled = True, version = Version2c,
      securityModel = NewCommunitySecurityModel ''public'' ''private'',
      engineID = ''engine'',
      decodeerMap = [''public'' \<mapsto> community_decoder ''public'' Version2c,
                     ''private'' \<mapsto> community_decoder ''private'' Version2c]\<rparr>"

definition v3_engine :: V3ResponseEngine where
  "v3_engine =
     \<lparr>enabled_v3 = True, version_v3 = Version3, engineID_v3 = ''engine'',
      decoder =
        \<lparr>Community_G = [], Version_G = Version3, Timeout_G = 30 * Second, Retries_G = 3,
         ExponentialTimeout_G = True, UserSecurityModel_G = True,
         SecurityParameters_G =
           Usm \<lparr>UserName = ''baize'', AuthenticationProtocol = MD5,
                AuthenticationPassphrase = ''AuthPassphrasetest'', PrivacyProtocol = AES,
                PrivacyPassphrase = ''PrivPassphrasetest''\<rparr>,
         MsgFlags_G = NoAuthNoPriv\<rparr>\<rparr>"

text \<open>The manager built from \<open>factory_config\<close>, and a started handler.\<close>

definition sample_manager :: "bool \<Rightarrow> bool \<Rightarrow> bool \<Rightarrow> ResponseManager" where
  "sample_manager en1 en2 en3 =
     projr (NewResponseManager sample_lib \<lparr>EngineFactoryConfig = factory_config en1 en2 en3\<rparr>)"

definition sample_handler :: "'l DistributedLocker \<Rightarrow> ResponseManagerInterface \<Rightarrow> 'l TrapHandler" where
  "sample_handler dl rm = (newTrapHandler dl rm (5 * Second))\<lparr>running_h := True, workersWg := 1\<rparr>"

definition sample_sockets :: sockets where
  "sample_sockets =
     \<lparr>ListenUDP = (\<lambda>p. True), listener_Close = (\<lambda>l. True),
      makechan_in_range = (\<lambda>n. n \<le> 65536)\<rparr>"

definition server_config :: "int \<Rightarrow> int \<Rightarrow> SNMPServerConfig" where
  "server_config workers lock_timeout =
     \<lparr>ReceiverConf = \<lparr>Port_conf = 162\<rparr>,
      TrapHandlerConf = \<lparr>WorkerCount = workers, QueueSize = 0, LockTimeout_conf = lock_timeout,
                         ProcessingTimeout = 0\<rparr>,
      MidChannelSize = 100\<rparr>"

text \<open>A server over the constant locker, before and after \<open>Start\<close>.\<close>

definition sample_server :: "int \<Rightarrow> int \<Rightarrow> unit SNMPServer" where
  "sample_server workers lock_timeout =
     NewSNMPServer (server_config workers lock_timeout) (locker_answering (True, None))
       (\<lambda>r. (Inr (Inr inform_v2c_packet), []))"

definition started_server :: "int \<Rightarrow> int \<Rightarrow> unit SNMPServer" where
  "started_server workers lock_timeout =
     snd (projr (Start sample_sockets (sample_server workers lock_timeout)))"


text \<open>Decoded packets with chosen bindings, and their normalisation.\<close>

definition pdu_of :: "go_value \<Rightarrow> SnmpPDU" where
  "pdu_of v = \<lparr>Name = ''.1.3.6.1.2.1.1.3.0'', Type = 0x43, Value = v\<rparr>"

definition trap_v2c_packet :: "go_value \<Rightarrow> SnmpPacket" where
  "trap_v2c_packet v =
     \<lparr>Version = Version2c, MsgFlags = 0, SecurityParameters = NoSecurityParameters,
      Community = ''public'', PDUType = SNMPv2Trap, RequestID = 1,
      Error = 0, ErrorIndex = 0, Variables = [pdu_of v]\<rparr>"

definition trap_v1_packet :: "SnmpPDU list \<Rightarrow> SnmpPacket" where
  "trap_v1_packet vars =
     \<lparr>Version = Version1, MsgFlags = 0, SecurityParameters = NoSecurityParameters,
      Community = ''public'', PDUType = Trap, RequestID = 0,
      Error = 0, ErrorIndex = 0, Variables = vars\<rparr>"

definition normalised :: "SnmpPacket \<Rightarrow> TrapMessage" where
  "normalised p = projr (convertToTrapMessage sample_runtime p (raw_of []))"

section \<open>Theorems\<close>

subsection \<open>Community access check\<close>

text \<open>
  C9. For every version string and PDU type, \<open>CheckAccess\<close> of the community security
  model answers true exactly when the operation is Trap, or the operation is
  InformRequest and the version argument is the v2c version string; otherwise it answers
  false; the error it returns is always nil.
\<close>

theorem CheckAccess_characterisation:
  "CheckAccess m ver operation =
     ((operation = Trap \<or>
       (operation = InformRequest \<and> ver = SnmpVersion_String Version2c)), None)"
  by (simp add: CheckAccess_def)

theorem CheckAccess_characterisation_witness:
  "CheckAccess \<lparr>readCommunity = ''public'', readWriteCommunity = ''private''\<rparr> ''2c'' InformRequest
     = (True, None)
   \<and> CheckAccess \<lparr>readCommunity = ''public'', readWriteCommunity = ''private''\<rparr> ''1'' InformRequest
     = (False, None)
   \<and> CheckAccess \<lparr>readCommunity = ''public'', readWriteCommunity = ''private''\<rparr> ''1'' GetRequest
     = (False, None)"
  using CheckAccess_characterisation
    [of "\<lparr>readCommunity = ''public'', readWriteCommunity = ''private''\<rparr>" "''2c''" InformRequest]
    CheckAccess_characterisation
    [of "\<lparr>readCommunity = ''public'', readWriteCommunity = ''private''\<rparr>" "''1''" InformRequest]
    CheckAccess_characterisation
    [of "\<lparr>readCommunity = ''public'', readWriteCommunity = ''private''\<rparr>" "''1''" GetRequest]
  by (simp add: SnmpVersion_String_def)

subsection \<open>Version sniffer\<close>

text \<open>
  C5, as the code has it. The version sniffer on every byte sequence and every behaviour of
  \<open>encoding/asn1\<close>: it fails with \<open>ErrParseSNMPVersion\<close> when there is no outer element,
  when the outer element is not a universal-class SEQUENCE, when the sequence has no first
  element or its first element is not tagged INTEGER, and when the library reads no
  \<open>int\<close> from that element; for a version integer \<open>n\<close> read into an \<open>int\<close> it fails with
  \<open>ErrIligelVersion\<close> when \<open>n\<close> is none of 0, 1, 3, and it returns v1 for 0, v2c for 1 and
  v3 for 3.
\<close>

theorem parseSNMPVersion_results:
  "(asn1_Unmarshal_RawValue lib data = None
      \<longrightarrow> parseSNMPVersion lib data = Inl ErrParseSNMPVersion)
   \<and> (asn1_Unmarshal_RawValue lib data = Some (outer, r1)
        \<and> (Tag outer \<noteq> TagSequence \<or> Class outer \<noteq> ClassUniversal)
      \<longrightarrow> parseSNMPVersion lib data = Inl ErrParseSNMPVersion)
   \<and> (asn1_Unmarshal_RawValue lib data = Some (outer, r1)
        \<and> Tag outer = TagSequence \<and> Class outer = ClassUniversal
        \<and> (asn1_Unmarshal_RawValue lib (Bytes outer) = None
             \<or> (asn1_Unmarshal_RawValue lib (Bytes outer) = Some (first, r2)
                 \<and> Tag first \<noteq> TagInteger))
      \<longrightarrow> parseSNMPVersion lib data = Inl ErrParseSNMPVersion)
   \<and> (asn1_Unmarshal_RawValue lib data = Some (outer, r1)
        \<and> Tag outer = TagSequence \<and> Class outer = ClassUniversal
        \<and> asn1_Unmarshal_RawValue lib (Bytes outer) = Some (first, r2)
        \<and> Tag first = TagInteger
      \<longrightarrow> (asn1_Unmarshal_int lib (FullBytes first) = None
             \<longrightarrow> parseSNMPVersion lib data = Inl ErrParseSNMPVersion)
          \<and> (asn1_Unmarshal_int lib (FullBytes first) = Some (n, r3)
             \<longrightarrow> (n \<notin> {0, 1, 3} \<longrightarrow> parseSNMPVersion lib data = Inl ErrIligelVersion)
                \<and> (n = 0 \<longrightarrow> parseSNMPVersion lib data = Inr Version1)
                \<and> (n = 1 \<longrightarrow> parseSNMPVersion lib data = Inr Version2c)
                \<and> (n = 3 \<longrightarrow> parseSNMPVersion lib data = Inr Version3)))"
  by (auto simp add: parseSNMPVersion_def)

theorem parseSNMPVersion_results_witness:
  "parseSNMPVersion sample_lib inform_v2c_bytes = Inr Version2c
   \<and> parseSNMPVersion sample_lib reserved_version_bytes = Inl ErrIligelVersion
   \<and> parseSNMPVersion sample_lib [0x04, 0x00] = Inl ErrParseSNMPVersion
   \<and> parseSNMPVersion sample_lib [0x30, 0x02, 0x04, 0x00] = Inl ErrParseSNMPVersion
   \<and> parseSNMPVersion sample_lib [] = Inl ErrParseSNMPVersion
   \<and> parseSNMPVersion sample_lib [0x30, 0x04, 0x02, 0x02, 0x00, 0x01] = Inl ErrParseSNMPVersion"
proof -
  let ?u = "asn1_Unmarshal_RawValue sample_lib"
  let ?seq = "\<lambda>bs. \<lparr>Class = 0, Tag = 16, IsCompound = True, Bytes = bs,
                      FullBytes = 0x30 # of_nat (length bs) # bs\<rparr>"
  let ?int = "\<lambda>b. \<lparr>Class = 0, Tag = 2, IsCompound = False, Bytes = [b],
                     FullBytes = [0x02, 0x01, b]\<rparr>"
  have a1: "?u inform_v2c_bytes = Some (?seq (drop 2 inform_v2c_bytes), [])"
    by code_simp
  have a2: "?u (drop 2 inform_v2c_bytes) = Some (?int 1, drop 5 inform_v2c_bytes)"
    by code_simp
  have a3: "asn1_Unmarshal_int sample_lib [0x02, 0x01, 0x01] = Some (1, [])"
    by code_simp
  have b1: "?u reserved_version_bytes = Some (?seq [0x02, 0x01, 0x02], [])"
    by code_simp
  have b2: "?u [0x02, 0x01, 0x02] = Some (?int 2, [])"
    by code_simp
  have b3: "asn1_Unmarshal_int sample_lib [0x02, 0x01, 0x02] = Some (2, [])"
    by code_simp
  have c1: "?u [0x04, 0x00] = Some (\<lparr>Class = 0, Tag = 4, IsCompound = False, Bytes = [],
                                      FullBytes = [0x04, 0x00]\<rparr>, [])"
    by code_simp
  have d1: "?u [0x30, 0x02, 0x04, 0x00] = Some (?seq [0x04, 0x00], [])"
    by code_simp
  have e1: "?u [] = None"
    by code_simp
  have f1: "?u [0x30, 0x04, 0x02, 0x02, 0x00, 0x01] = Some (?seq [0x02, 0x02, 0x00, 0x01], [])"
    by code_simp
  have f2: "?u [0x02, 0x02, 0x00, 0x01]
              = Some (\<lparr>Class = 0, Tag = 2, IsCompound = False, Bytes = [0x00, 0x01],
                        FullBytes = [0x02, 0x02, 0x00, 0x01]\<rparr>, [])"
    by code_simp
  have f3: "asn1_Unmarshal_int sample_lib [0x02, 0x02, 0x00, 0x01] = None"
    by code_simp
  show ?thesis
    using parseSNMPVersion_results
            [of sample_lib inform_v2c_bytes "?seq (drop 2 inform_v2c_bytes)" "[]"
                "?int 1" "drop 5 inform_v2c_bytes" 1 "[]"]
          parseSNMPVersion_results
            [of sample_lib reserved_version_bytes "?seq [0x02, 0x01, 0x02]" "[]"
                "?int 2" "[]" 2 "[]"]
          parseSNMPVersion_results
            [of sample_lib "[0x04, 0x00]"
                "\<lparr>Class = 0, Tag = 4, IsCompound = False, Bytes = [],
                  FullBytes = [0x04, 0x00]\<rparr>" "[]"]
          parseSNMPVersion_results
            [of sample_lib "[0x30, 0x02, 0x04, 0x00]" "?seq [0x04, 0x00]" "[]"
                "\<lparr>Class = 0, Tag = 4, IsCompound = False, Bytes = [],
                  FullBytes = [0x04, 0x00]\<rparr>" "[]"]
          parseSNMPVersion_results [of sample_lib "[]"]
          parseSNMPVersion_results
            [of sample_lib "[0x30, 0x04, 0x02, 0x02, 0x00, 0x01]" "?seq [0x02, 0x02, 0x00, 0x01]" "[]"
                "\<lparr>Class = 0, Tag = 2, IsCompound = False, Bytes = [0x00, 0x01],
                  FullBytes = [0x02, 0x02, 0x00, 0x01]\<rparr>" "[]"]
          a1 a2 a3 b1 b2 b3 c1 d1 e1 f1 f2 f3
    by simp
qed

text \<open>
  C5 as stated has \<open>ErrIligelVersion\<close> for every version integer other than 0, 1 and 3.
  The message whose first element is the INTEGER \<open>2 ^ 64\<close> has a universal-class SEQUENCE
  outside and a universal INTEGER first, and the sniffer fails with
  \<open>ErrParseSNMPVersion\<close>: the library reads no \<open>int\<close> from nine content bytes.
\<close>

theorem wide_version_integer_parse_error:
  "asn1_Unmarshal_RawValue sample_lib wide_version_bytes
     = Some (\<lparr>Class = ClassUniversal, Tag = TagSequence, IsCompound = True,
              Bytes = drop 2 wide_version_bytes, FullBytes = wide_version_bytes\<rparr>, [])
   \<and> asn1_Unmarshal_RawValue sample_lib (drop 2 wide_version_bytes)
     = Some (\<lparr>Class = ClassUniversal, Tag = TagInteger, IsCompound = False,
              Bytes = drop 4 wide_version_bytes, FullBytes = drop 2 wide_version_bytes\<rparr>, [])
   \<and> be_int 0 (drop 4 wide_version_bytes) = 18446744073709551616
   \<and> parseSNMPVersion sample_lib wide_version_bytes = Inl ErrParseSNMPVersion
   \<and> parseSNMPVersion sample_lib wide_version_bytes \<noteq> Inl ErrIligelVersion"
proof -
  have a: "asn1_Unmarshal_RawValue sample_lib wide_version_bytes
     = Some (\<lparr>Class = ClassUniversal, Tag = TagSequence, IsCompound = True,
              Bytes = drop 2 wide_version_bytes, FullBytes = wide_version_bytes\<rparr>, [])"
    by code_simp
  have b: "asn1_Unmarshal_RawValue sample_lib (drop 2 wide_version_bytes)
     = Some (\<lparr>Class = ClassUniversal, Tag = TagInteger, IsCompound = False,
              Bytes = drop 4 wide_version_bytes, FullBytes = drop 2 wide_version_bytes\<rparr>, [])"
    by code_simp
  have c: "be_int 0 (drop 4 wide_version_bytes) = 18446744073709551616"
    by code_simp
  have d: "parseSNMPVersion sample_lib wide_version_bytes = Inl ErrParseSNMPVersion"
    by code_simp
  show ?thesis
    using a b c d by simp
qed

subsection \<open>The v1/v2c engine\<close>

lemma shouldRespond_excludes_canProcess:
  "canProcessRequest e p \<Longrightarrow> \<not> shouldRespond e p"
  by (auto simp add: canProcessRequest_def shouldRespond_def split: if_splits)

text \<open>
  C1. A v2c InformRequest that the v2c engine accepts is to be answered with a GetResponse
  datagram carrying the request id of the request and no variable bindings, sent to the
  reply endpoint of the raw packet before the decoded packet is returned. The engine does
  not do so: \<open>shouldRespond\<close> is true for GetRequest, GetNextRequest and SetRequest only,
  which \<open>canProcessRequest\<close> has refused before, so \<open>ProcessRequest\<close> of the v1/v2c engine
  writes no datagram on any input; \<open>createInformResponse\<close>, which builds the answer, is
  never reached.
\<close>

theorem V1_V2c_ProcessRequest_writes_nothing:
  "snd (V1_V2c_ProcessRequest lib engine rawPacket) = []"
  by (auto simp add: V1_V2c_ProcessRequest_def shouldRespond_excludes_canProcess
           split: sum.splits option.splits prod.splits)

theorem V1_V2c_ProcessRequest_inform_unanswered:
  "V1_V2c_ProcessRequest sample_lib v2c_engine (raw_of inform_v2c_bytes)
     = (Inr (Inr inform_v2c_packet), [])
   \<and> createInformResponse v2c_engine inform_v2c_packet
     = Inr \<lparr>Version = Version2c, MsgFlags = 0, SecurityParameters = NoSecurityParameters,
            Community = ''public'', PDUType = GetResponse, RequestID = 0xDEADBEEF,
            Error = 0, ErrorIndex = 0, Variables = []\<rparr>"
proof -
  have c: "parseSNMPv1v2cCommunity sample_lib inform_v2c_bytes = Inr ''public''"
    by code_simp
  have d: "SnmpDecodePacket sample_lib (community_decoder ''public'' Version2c) inform_v2c_bytes
             = Some inform_v2c_packet"
    by (simp add: sample_lib_def sample_decode_def)
  have ok: "canProcessRequest v2c_engine inform_v2c_packet"
    by (simp add: canProcessRequest_def v2c_engine_def inform_v2c_packet_def)
  have au: "validateAndProcessSecurity v2c_engine inform_v2c_packet = None"
    by (simp add: validateAndProcessSecurity_def Authenticate_def v2c_engine_def
          inform_v2c_packet_def)
  have m: "decodeerMap v2c_engine ''public'' = Some (community_decoder ''public'' Version2c)"
    by (simp add: v2c_engine_def)
  have "fst (V1_V2c_ProcessRequest sample_lib v2c_engine (raw_of inform_v2c_bytes))
          = Inr (Inr inform_v2c_packet)"
    using c d ok au m shouldRespond_excludes_canProcess [OF ok]
    by (simp add: V1_V2c_ProcessRequest_def raw_of_def bytes_of_def)
  moreover have "createInformResponse v2c_engine inform_v2c_packet
     = Inr \<lparr>Version = Version2c, MsgFlags = 0, SecurityParameters = NoSecurityParameters,
            Community = ''public'', PDUType = GetResponse, RequestID = 0xDEADBEEF,
            Error = 0, ErrorIndex = 0, Variables = []\<rparr>"
    by (simp add: createInformResponse_def v2c_engine_def inform_v2c_packet_def)
  ultimately show ?thesis
    using V1_V2c_ProcessRequest_writes_nothing [of sample_lib v2c_engine "raw_of inform_v2c_bytes"]
    by (simp add: prod_eq_iff)
qed

subsection \<open>The v3 engine\<close>

text \<open>
  C10. For every v3 InformRequest that decodes, \<open>ProcessRequest\<close> of the v3 engine is to
  return the decoded packet with a nil error whether or not the GetResponse is
  transmitted. It does so when the marshaller returns: an error of the marshaller and a
  failed write are dropped. But the reply it hands to the marshaller is a version 3 packet
  with nil security parameters, and where the marshaller panics the call ends in that
  panic and returns nothing.
\<close>

theorem V3_ProcessRequest_inform_reply:
  assumes "SnmpDecodePacket lib (decoder e) (bytes_of (Data rawPacket)) = Some snmpPacket"
    and "PDUType snmpPacket = InformRequest"
    and "reply = \<lparr>Version = version_v3 e, MsgFlags = 0,
                   SecurityParameters = NoSecurityParameters,
                   Community = Community snmpPacket, PDUType = GetResponse,
                   RequestID = RequestID snmpPacket, Error = 0, ErrorIndex = 0,
                   Variables = []\<rparr>"
  shows "(MarshalMsg lib reply = Inl p
            \<longrightarrow> V3_ProcessRequest lib e rawPacket = (Inl p, []))
       \<and> (MarshalMsg lib reply = Inr None
            \<longrightarrow> V3_ProcessRequest lib e rawPacket = (Inr (Inr snmpPacket), []))
       \<and> (MarshalMsg lib reply = Inr (Some data)
            \<longrightarrow> V3_ProcessRequest lib e rawPacket
                  = (Inr (Inr snmpPacket),
                     [UDPWrite (Conn rawPacket) data (RemoteAddr rawPacket)]))"
  using assms by (simp add: V3_ProcessRequest_def sendSNMPResponse_def)

theorem V3_ProcessRequest_inform_reply_witness:
  "V3_ProcessRequest sample_lib v3_engine (raw_of inform_v3_bytes)
     = (Inl (Panic ''invalid memory address or nil pointer dereference''), [])
   \<and> V3_ProcessRequest (sample_lib\<lparr>MarshalMsg := (\<lambda>p. Inr None)\<rparr>) v3_engine
        (raw_of inform_v3_bytes)
     = (Inr (Inr inform_v3_packet), [])
   \<and> V3_ProcessRequest
        (sample_lib\<lparr>MarshalMsg := (\<lambda>p. Inr (Some [0xa2])), WriteToUDP := (\<lambda>c d a. False)\<rparr>)
        v3_engine (raw_of inform_v3_bytes)
     = (Inr (Inr inform_v3_packet), [UDPWrite (Some 0) [0xa2] (Some sample_addr)])"
proof -
  let ?reply = "\<lparr>Version = version_v3 v3_engine, MsgFlags = 0,
                  SecurityParameters = NoSecurityParameters,
                  Community = Community inform_v3_packet, PDUType = GetResponse,
                  RequestID = RequestID inform_v3_packet, Error = 0, ErrorIndex = 0,
                  Variables = []\<rparr>"
  have ne: "inform_v3_bytes \<noteq> inform_v2c_bytes"
    by (simp add: inform_v3_bytes_def inform_v2c_bytes_def)
  have d: "SnmpDecodePacket (sample_lib\<lparr>MarshalMsg := m, WriteToUDP := w\<rparr>) (decoder v3_engine)
             (bytes_of (Data (raw_of inform_v3_bytes))) = Some inform_v3_packet" for m w
    using ne by (simp add: sample_lib_def sample_decode_def raw_of_def bytes_of_def)
  have d0: "SnmpDecodePacket sample_lib (decoder v3_engine)
             (bytes_of (Data (raw_of inform_v3_bytes))) = Some inform_v3_packet"
    using ne by (simp add: sample_lib_def sample_decode_def raw_of_def bytes_of_def)
  have d1: "SnmpDecodePacket (sample_lib\<lparr>MarshalMsg := m\<rparr>) (decoder v3_engine)
             (bytes_of (Data (raw_of inform_v3_bytes))) = Some inform_v3_packet" for m
    using ne by (simp add: sample_lib_def sample_decode_def raw_of_def bytes_of_def)
  have t: "PDUType inform_v3_packet = InformRequest"
    by (simp add: inform_v3_packet_def)
  have m0: "MarshalMsg sample_lib ?reply
              = Inl (Panic ''invalid memory address or nil pointer dereference'')"
    by (simp add: sample_lib_def sample_MarshalMsg_def v3_engine_def)
  show ?thesis
    using V3_ProcessRequest_inform_reply [OF d0 t refl,
            where p = "Panic ''invalid memory address or nil pointer dereference''"]
          V3_ProcessRequest_inform_reply [OF d1 [where m = "\<lambda>p. Inr None"] t refl]
          V3_ProcessRequest_inform_reply
            [OF d [where m = "\<lambda>p. Inr (Some [0xa2])" and w = "\<lambda>c d a. False"] t refl,
             where data = "[0xa2]"]
          m0
    by (simp add: raw_of_def)
qed

subsection \<open>Events of a worker\<close>

lemma emitted_append: "emitted (xs @ ys) = emitted xs @ emitted ys"
  by (induction xs rule: emitted.induct) simp_all

lemma emitted_Net: "emitted (map Net ns) = []"
  by (induction ns) simp_all

lemma responded_append: "responded (xs @ ys) = responded xs @ responded ys"
  by (induction xs rule: responded.induct) simp_all

lemma responded_Net: "responded (map Net ns) = []"
  by (induction ns) simp_all

lemma lock_calls_append: "lock_calls (xs @ ys) = lock_calls xs @ lock_calls ys"
  by (induction xs rule: lock_calls.induct) simp_all

lemma lock_calls_Net: "lock_calls (map Net ns) = []"
  by (induction ns) simp_all

lemma acquisitions_append: "acquisitions (xs @ ys) = acquisitions xs @ acquisitions ys"
  by (induction xs rule: acquisitions.induct) simp_all

lemma acquisitions_Net: "acquisitions (map Net ns) = []"
  by (induction ns) simp_all

lemma processTrap_respond_error:
  assumes "fst (responseMgr h rawPacket) = Inr (Inl err)"
  shows "emitted (fst (processTrap rt h l rawPacket)) = []"
  using assms
  by (auto simp add: processTrap_def Let_def emitted_append emitted_Net
        split: prod.splits sum.splits)

lemma lock_calls_processTrap:
  "lock_calls (fst (processTrap rt h l rawPacket))
     = [(1 * Second, GenerateTrapLockKey (locker h) (bytes_of (Data rawPacket)), LockTimeout h)]"
  by (auto simp add: processTrap_def Let_def lock_calls_append lock_calls_Net
        sendProcessedTrapMessage_def split: prod.splits sum.splits)

lemma processTrap_emits_only_acquired:
  "length (emitted (fst (processTrap rt h l rawPacket)))
     \<le> length (acquisitions (fst (processTrap rt h l rawPacket)))"
  by (auto simp add: processTrap_def Let_def emitted_append emitted_Net acquisitions_append
        acquisitions_Net sendProcessedTrapMessage_def split: prod.splits sum.splits)

lemma worker_emits_only_acquired:
  "length (emitted (fst (worker rt h l packets)))
     \<le> length (acquisitions (fst (worker rt h l packets)))"
proof (induction packets arbitrary: l)
  case Nil
  then show ?case by simp
next
  case (Cons p ps)
  obtain evs r l' where pt: "processTrap rt h l p = (evs, r, l')"
    by (cases "processTrap rt h l p") auto
  have one: "length (emitted evs) \<le> length (acquisitions evs)"
    using processTrap_emits_only_acquired [of rt h l p] pt by simp
  show ?case
  proof (cases r)
    case None
    obtain evs' r' l'' where w: "worker rt h l' ps = (evs', r', l'')"
      by (cases "worker rt h l' ps") auto
    have "length (emitted evs') \<le> length (acquisitions evs')"
      using Cons.IH [of l'] w by simp
    then show ?thesis
      using one pt None w by (simp add: emitted_append acquisitions_append)
  next
    case (Some a)
    then show ?thesis using one pt by simp
  qed
qed

subsection \<open>Disabled versions\<close>

lemma factory_v1_disabled:
  assumes "NewResponseEngineFactory lib cfg = Inr f" "V1Config cfg = Some c1" "\<not> Enabled c1"
  shows "\<exists>e. engines f Version1 = Some (V1_V2cEngine e) \<and> \<not> enabled e"
  using assms
  by (auto simp add: NewResponseEngineFactory_def NewV1_V2cResponseEngine_def
        split: option.splits sum.splits if_splits)

lemma factory_v2c_disabled:
  assumes "NewResponseEngineFactory lib cfg = Inr f" "V2cConfig cfg = Some c2" "\<not> Enabled c2"
  shows "engines f Version2c = None"
  using assms
  by (auto simp add: NewResponseEngineFactory_def NewV1_V2cResponseEngine_def
        split: option.splits sum.splits if_splits)

lemma factory_v3_disabled:
  assumes "NewResponseEngineFactory lib cfg = Inr f" "V3Config cfg = Some c3" "\<not> Enabled_v3 c3"
  shows "engines f Version3 = None"
  using assms
  by (auto simp add: NewResponseEngineFactory_def NewV1_V2cResponseEngine_def
        split: option.splits sum.splits if_splits)

lemma ResponseRequest_engine_disabled:
  assumes "Data rawPacket = Some data"
    and "parseSNMPVersion lib data = Inr v"
    and "engines (factory m) v = Some engine"
    and "\<not> Enable engine"
  shows "ResponseRequest lib m rawPacket = (Inr (Inl ErrDisableVersion), [])"
proof -
  have "v = Version1 \<or> v = Version2c \<or> v = Version3"
    using assms(2) by (auto simp add: parseSNMPVersion_def split: option.splits if_splits)
  then show ?thesis
    using assms by (auto simp add: ResponseRequest_def createEngine_def)
qed

text \<open>
  C2. A datagram whose sniffed version is v1, v2c or v3 and whose configured engine has
  \<open>enabled == false\<close> is to fail with \<open>ErrDisableVersion\<close>, not with
  \<open>ErrUnsupportedVersion\<close>, and no TrapMessage is to be emitted. \<open>ResponseRequest\<close>
  answers so for every engine the factory holds, and the factory holds the v1 engine of a
  configuration that is not enabled. It does not hold the v2c and v3 engines of such a
  configuration, which \<open>NewResponseEngineFactory\<close> skips: for these versions
  \<open>ResponseRequest\<close> fails with \<open>ErrUnsupportedVersion\<close>. No TrapMessage is emitted in
  either case.
\<close>

theorem ResponseRequest_disabled_version:
  assumes "NewResponseManager lib \<lparr>EngineFactoryConfig = cfg\<rparr> = Inr m"
    and "Data rawPacket = Some data"
    and "parseSNMPVersion lib data = Inr v"
    and "rm = ResponseRequest lib m"
  shows "(v = Version1 \<and> V1Config cfg = Some c1 \<and> \<not> Enabled c1
            \<longrightarrow> rm rawPacket = (Inr (Inl ErrDisableVersion), [])
                \<and> emitted (fst (processTrap rt (h\<lparr>responseMgr := rm\<rparr>) l rawPacket)) = [])
       \<and> (v = Version2c \<and> V2cConfig cfg = Some c2 \<and> \<not> Enabled c2
            \<longrightarrow> rm rawPacket = (Inr (Inl ErrUnsupportedVersion), [])
                \<and> emitted (fst (processTrap rt (h\<lparr>responseMgr := rm\<rparr>) l rawPacket)) = [])
       \<and> (v = Version3 \<and> V3Config cfg = Some c3 \<and> \<not> Enabled_v3 c3
            \<longrightarrow> rm rawPacket = (Inr (Inl ErrUnsupportedVersion), [])
                \<and> emitted (fst (processTrap rt (h\<lparr>responseMgr := rm\<rparr>) l rawPacket)) = [])"
proof -
  obtain f where f: "NewResponseEngineFactory lib cfg = Inr f" and m: "m = \<lparr>factory = f\<rparr>"
    using assms(1) by (auto simp add: NewResponseManager_def split: sum.splits)
  have v1: "rm rawPacket = (Inr (Inl ErrDisableVersion), [])"
    if "v = Version1" "V1Config cfg = Some c1" "\<not> Enabled c1"
    using factory_v1_disabled [OF f that(2,3)] that(1) assms(2,3,4) m
    by (auto simp add: ResponseRequest_def createEngine_def)
  have v2: "rm rawPacket = (Inr (Inl ErrUnsupportedVersion), [])"
    if "v = Version2c" "V2cConfig cfg = Some c2" "\<not> Enabled c2"
    using factory_v2c_disabled [OF f that(2,3)] that(1) assms(2,3,4) m
    by (auto simp add: ResponseRequest_def createEngine_def)
  have v3: "rm rawPacket = (Inr (Inl ErrUnsupportedVersion), [])"
    if "v = Version3" "V3Config cfg = Some c3" "\<not> Enabled_v3 c3"
    using factory_v3_disabled [OF f that(2,3)] that(1) assms(2,3,4) m
    by (auto simp add: ResponseRequest_def createEngine_def)
  have none: "emitted (fst (processTrap rt (h\<lparr>responseMgr := rm\<rparr>) l rawPacket)) = []"
    if "rm rawPacket = (Inr (Inl e), [])" for e
    using that processTrap_respond_error [of "h\<lparr>responseMgr := rm\<rparr>" rawPacket e rt l]
    by simp
  show ?thesis
    using v1 v2 v3 none by blast
qed

theorem ResponseRequest_disabled_version_witness:
  "ResponseRequest sample_lib (sample_manager False True True) (raw_of trap_v1_bytes)
     = (Inr (Inl ErrDisableVersion), [])
   \<and> ResponseRequest sample_lib (sample_manager True False True) (raw_of inform_v2c_bytes)
     = (Inr (Inl ErrUnsupportedVersion), [])
   \<and> ResponseRequest sample_lib (sample_manager True True False) (raw_of inform_v3_bytes)
     = (Inr (Inl ErrUnsupportedVersion), [])
   \<and> emitted (fst (processTrap sample_runtime
        (sample_handler (locker_answering (True, None))
           (ResponseRequest sample_lib (sample_manager False True True)))
        () (raw_of trap_v1_bytes))) = []"
proof -
  have p1: "parseSNMPVersion sample_lib trap_v1_bytes = Inr Version1"
    by code_simp
  have p2: "parseSNMPVersion sample_lib inform_v2c_bytes = Inr Version2c"
    by code_simp
  have p3: "parseSNMPVersion sample_lib inform_v3_bytes = Inr Version3"
    by code_simp
  have v3: "NewV3ResponseEngine sample_lib (v3_config True) \<noteq> Inl p" for p
    by (simp add: NewV3ResponseEngine_def v3_config_def
        parse_msg_flags_def parse_auth_protocol_def parse_priv_protocol_def)
  have m: "NewResponseManager sample_lib \<lparr>EngineFactoryConfig = factory_config a b c\<rparr>
             = Inr (sample_manager a b c)" for a b c
    using v3
    by (cases "NewV3ResponseEngine sample_lib (v3_config True)")
       (simp_all add: sample_manager_def NewResponseManager_def NewResponseEngineFactory_def
          NewV1_V2cResponseEngine_def factory_config_def community_config_def v3_config_def)
  have d: "Data (raw_of bs) = Some bs" for bs
    by (simp add: raw_of_def)
  have c1: "V1Config (factory_config False True True) = Some (community_config False)"
    and c2: "V2cConfig (factory_config True False True) = Some (community_config False)"
    and c3: "V3Config (factory_config True True False) = Some (v3_config False)"
    by (simp_all add: factory_config_def)
  have "sample_handler (locker_answering (True, None))
           (ResponseRequest sample_lib (sample_manager False True True))
        = (sample_handler (locker_answering (True, None)) (\<lambda>r. (Inr (Inl ErrNilRequest), [])))
            \<lparr>responseMgr := ResponseRequest sample_lib (sample_manager False True True)\<rparr>"
    by (simp add: sample_handler_def newTrapHandler_def)
  then show ?thesis
    using ResponseRequest_disabled_version [OF m [of False True True] d p1 refl,
            where ?c1.0 = "community_config False" and rt = sample_runtime and l = "()"
              and h = "sample_handler (locker_answering (True, None)) (\<lambda>r. (Inr (Inl ErrNilRequest), []))"]
          ResponseRequest_disabled_version [OF m [of True False True] d p2 refl,
            where ?c2.0 = "community_config False" and rt = sample_runtime and l = "()"
              and h = "sample_handler (locker_answering (True, None)) (\<lambda>r. (Inr (Inl ErrNilRequest), []))"]
          ResponseRequest_disabled_version [OF m [of True True False] d p3 refl,
            where ?c3.0 = "v3_config False" and rt = sample_runtime and l = "()"
              and h = "sample_handler (locker_answering (True, None)) (\<lambda>r. (Inr (Inl ErrNilRequest), []))"]
          c1 c2 c3
    by (simp add: community_config_def v3_config_def)
qed

text \<open>
  With v2c and v3 configured and not enabled, a v2c and a v3 datagram are refused with
  \<open>ErrUnsupportedVersion\<close>.
\<close>

theorem disabled_v2c_v3_unsupported_version:
  "NewResponseManager sample_lib \<lparr>EngineFactoryConfig = factory_config True False False\<rparr>
     = Inr (sample_manager True False False)
   \<and> Enabled (community_config False) = False
   \<and> parseSNMPVersion sample_lib inform_v2c_bytes = Inr Version2c
   \<and> fst (ResponseRequest sample_lib (sample_manager True False False) (raw_of inform_v2c_bytes))
       = Inr (Inl ErrUnsupportedVersion)
   \<and> fst (ResponseRequest sample_lib (sample_manager True False False) (raw_of inform_v2c_bytes))
       \<noteq> Inr (Inl ErrDisableVersion)
   \<and> Enabled_v3 (v3_config False) = False
   \<and> parseSNMPVersion sample_lib inform_v3_bytes = Inr Version3
   \<and> fst (ResponseRequest sample_lib (sample_manager True False False) (raw_of inform_v3_bytes))
       = Inr (Inl ErrUnsupportedVersion)"
proof -
  have p2: "parseSNMPVersion sample_lib inform_v2c_bytes = Inr Version2c"
    by code_simp
  have p3: "parseSNMPVersion sample_lib inform_v3_bytes = Inr Version3"
    by code_simp
  have m: "NewResponseManager sample_lib \<lparr>EngineFactoryConfig = factory_config True False False\<rparr>
             = Inr (sample_manager True False False)"
    by (simp add: sample_manager_def NewResponseManager_def NewResponseEngineFactory_def
          NewV1_V2cResponseEngine_def factory_config_def community_config_def v3_config_def)
  have e2: "engines (factory (sample_manager True False False)) Version2c = None"
    by (simp add: sample_manager_def NewResponseManager_def NewResponseEngineFactory_def
          NewV1_V2cResponseEngine_def factory_config_def community_config_def v3_config_def)
  have e3: "engines (factory (sample_manager True False False)) Version3 = None"
    by (simp add: sample_manager_def NewResponseManager_def NewResponseEngineFactory_def
          NewV1_V2cResponseEngine_def factory_config_def community_config_def v3_config_def)
  show ?thesis
    using p2 p3 m e2 e3
    by (simp add: ResponseRequest_def createEngine_def raw_of_def community_config_def
          v3_config_def)
qed

subsection \<open>Deduplication at the lock\<close>

text \<open>
  C4. For every dequeued raw packet, if \<open>AcquireLock\<close> answers false or with an error, the
  worker returns without calling the response manager and without putting a TrapMessage
  on the egress channel; and on any sequence of packets the TrapMessages emitted are at
  most as many as the lock acquisitions that succeeded.
\<close>

theorem processTrap_lock_not_acquired:
  assumes "AcquireLock (locker h) l (1 * Second)
             (GenerateTrapLockKey (locker h) (bytes_of (Data rawPacket))) (LockTimeout h)
           = ((acquired, err), l')"
    and "err \<noteq> None \<or> \<not> acquired"
  shows "responded (fst (processTrap rt h l rawPacket)) = []
       \<and> emitted (fst (processTrap rt h l rawPacket)) = []
       \<and> fst (snd (processTrap rt h l rawPacket)) = None
       \<and> length (emitted (fst (worker rt h l0 packets)))
           \<le> length (acquisitions (fst (worker rt h l0 packets)))"
  using assms worker_emits_only_acquired [of rt h l0 packets]
  by (auto simp add: processTrap_def Let_def)

theorem processTrap_lock_not_acquired_witness:
  "responded (fst (processTrap sample_runtime
      (sample_handler setnx_locker (\<lambda>r. (Inr (Inr inform_v2c_packet), [])))
      [''trap_lock:0''] (raw_of [0x30]))) = []
   \<and> emitted (fst (processTrap sample_runtime
      (sample_handler setnx_locker (\<lambda>r. (Inr (Inr inform_v2c_packet), [])))
      [''trap_lock:0''] (raw_of [0x30]))) = []
   \<and> emitted (fst (processTrap sample_runtime
      (sample_handler (locker_answering (False, Some (Errorf ''redis down'' None)))
         (\<lambda>r. (Inr (Inr inform_v2c_packet), [])))
      () (raw_of [0x30]))) = []
   \<and> length (emitted (fst (worker sample_runtime
      (sample_handler setnx_locker (\<lambda>r. (Inr (Inr inform_v2c_packet), [])))
      [] [raw_of [0x30], raw_of [0x30]]))) = 1
   \<and> responded (fst (worker sample_runtime
      (sample_handler setnx_locker (\<lambda>r. (Inr (Inr inform_v2c_packet), [])))
      [] [raw_of [0x30], raw_of [0x30]])) = [raw_of [0x30]]"
proof -
  let ?rm = "\<lambda>r::RawPacket. (Inr (Inr inform_v2c_packet), []) :: response_outcome"
  have key: "string_of_bytes [0x30] = ''0''"
    by code_simp
  have a: "AcquireLock (locker (sample_handler setnx_locker ?rm)) [''trap_lock:0''] (1 * Second)
             (GenerateTrapLockKey (locker (sample_handler setnx_locker ?rm))
                (bytes_of (Data (raw_of [0x30]))))
             (LockTimeout (sample_handler setnx_locker ?rm)) = ((False, None), [''trap_lock:0''])"
    using key
    by (simp add: sample_handler_def newTrapHandler_def setnx_locker_def raw_of_def bytes_of_def)
  have b: "AcquireLock (locker (sample_handler (locker_answering r) ?rm)) () (1 * Second)
             (GenerateTrapLockKey (locker (sample_handler (locker_answering r) ?rm))
                (bytes_of (Data (raw_of [0x30]))))
             (LockTimeout (sample_handler (locker_answering r) ?rm)) = (r, ())" for r
    by (simp add: sample_handler_def newTrapHandler_def locker_answering_def)
  have w: "length (emitted (fst (worker sample_runtime (sample_handler setnx_locker ?rm)
              [] [raw_of [0x30], raw_of [0x30]]))) = 1
         \<and> responded (fst (worker sample_runtime (sample_handler setnx_locker ?rm)
              [] [raw_of [0x30], raw_of [0x30]])) = [raw_of [0x30]]"
    using key
    by (simp add: processTrap_def Let_def sample_handler_def newTrapHandler_def
          setnx_locker_def convertToTrapMessage_def raw_of_def bytes_of_def
          sendProcessedTrapMessage_def sample_runtime_def)
  show ?thesis
    using processTrap_lock_not_acquired [OF a, of sample_runtime "[]" "[]"]
          processTrap_lock_not_acquired
            [OF b [of "(False, Some (Errorf ''redis down'' None))"], of sample_runtime "()" "[]"]
          w
    by simp
qed

subsection \<open>Lock expiration\<close>

lemma Start_handler_LockTimeout:
  assumes "Start os s = Inr (None, s')"
  shows "\<exists>h. handler s' = Some h
           \<and> LockTimeout h = LockTimeout_conf (TrapHandlerConf (config s))
           \<and> locker h = distributedLocker s \<and> responseMgr h = responseMgr_s s"
  using assms
  by (auto simp add: Start_def Let_def handler_start_def newTrapHandler_def
        split: if_splits prod.splits option.splits sum.splits)

text \<open>
  C3. The expiration passed to \<open>AcquireLock\<close> is to be the configured lock timeout taken
  in seconds. \<open>Start\<close> converts the configured integer \<open>n\<close> with \<open>time.Duration(n)\<close> and
  no unit, so for every processed packet the expiration is \<open>n\<close> nanoseconds, which for
  \<open>n \<noteq> 0\<close> is not \<open>n\<close> seconds.
\<close>

theorem lock_ttl_is_configured_nanoseconds:
  assumes "Start os s = Inr (None, s')"
    and "handler s' = Some h"
    and "n = LockTimeout_conf (TrapHandlerConf (config s))"
  shows "lock_calls (fst (processTrap rt h l rawPacket))
           = [(1 * Second, GenerateTrapLockKey (distributedLocker s) (bytes_of (Data rawPacket)), n)]
         \<and> (n \<noteq> 0 \<longrightarrow> n \<noteq> n * Second)"
  using Start_handler_LockTimeout [OF assms(1)] assms(2,3)
  by (auto simp add: lock_calls_processTrap)

theorem lock_ttl_is_configured_nanoseconds_witness:
  "Start sample_sockets (sample_server 2 30) = Inr (None, started_server 2 30)
   \<and> lock_calls (fst (processTrap sample_runtime (the (handler (started_server 2 30))) ()
                       (raw_of inform_v2c_bytes)))
       = [(1000000000, ''mock_key'', 30)]
   \<and> (30 :: Duration) \<noteq> 30000000000"
proof -
  obtain s' where s: "Start sample_sockets (sample_server 2 30) = Inr (None, s')"
    by (simp add: Start_def sample_server_def NewSNMPServer_def server_config_def Let_def
          handler_start_def newTrapHandler_def receiver_start_def newUDPReceiver_def
          sample_sockets_def makechan_panics_def)
  then have s': "s' = started_server 2 30"
    by (simp add: started_server_def)
  obtain h where h: "handler s' = Some h"
    using Start_handler_LockTimeout [OF s] by blast
  have n: "30 = LockTimeout_conf (TrapHandlerConf (config (sample_server 2 30)))"
    by (simp add: sample_server_def NewSNMPServer_def server_config_def)
  have k: "GenerateTrapLockKey (distributedLocker (sample_server 2 30)) bs = ''mock_key''" for bs
    by (simp add: sample_server_def NewSNMPServer_def locker_answering_def)
  show ?thesis
    using s s' h k
      lock_ttl_is_configured_nanoseconds
        [OF s h n, of sample_runtime "()" "raw_of inform_v2c_bytes"]
    by simp
qed

subsection \<open>Normaliser\<close>

lemma extractV3SecurityInfo_keeps:
  "V2cV3Timestamp (extractV3SecurityInfo rt trap p) = V2cV3Timestamp trap"
  "V1GenericTrap (extractV3SecurityInfo rt trap p) = V1GenericTrap trap"
  "V1SpecificTrap (extractV3SecurityInfo rt trap p) = V1SpecificTrap trap"
  "V1EnterpriseOID (extractV3SecurityInfo rt trap p) = V1EnterpriseOID trap"
  by (simp_all add: extractV3SecurityInfo_def Let_def split: SnmpV3SecurityParameters.splits)

lemma convertToTrapMessage_timestamp:
  assumes "Version p = Version2c \<or> Version p = Version3"
    and "Variables p = firstVar # others"
    and "RemoteAddr rawPacket = Some addr"
  shows "\<exists>trap. convertToTrapMessage rt p rawPacket = Inr trap
           \<and> V2cV3Timestamp trap = sysUpTime_of (Value firstVar)"
  using assms
  by (auto simp add: convertToTrapMessage_def Let_def extractV2cV3Fields_def
        extractV3SecurityInfo_keeps)

text \<open>
  C6. For every decoded v2c or v3 packet with at least one variable binding (in a raw
  packet that has its remote address), normalisation completes and the sysUpTime field is:
  the value itself when the first binding holds a \<open>uint32\<close>; \<open>MaxUint32\<close> when it holds
  a \<open>uint64\<close> or an \<open>int64\<close> greater than \<open>MaxUint32\<close>; 0 when it holds a negative
  \<open>int\<close> or \<open>int64\<close>; and 0 when it holds a value of any other type, or nil.
\<close>

theorem sysUpTime_normalised:
  assumes "Version p = Version2c \<or> Version p = Version3"
    and "Variables p = firstVar # others"
    and "RemoteAddr rawPacket = Some addr"
  shows "\<exists>trap. convertToTrapMessage rt p rawPacket = Inr trap
           \<and> (\<forall>v. Value firstVar = VUint32 v \<longrightarrow> V2cV3Timestamp trap = v)
           \<and> (\<forall>v. Value firstVar = VUint64 v \<and> v > 0xFFFFFFFF
                  \<longrightarrow> V2cV3Timestamp trap = MaxUint32)
           \<and> (\<forall>v. Value firstVar = VInt64 v \<and> sint v > 0xFFFFFFFF
                  \<longrightarrow> V2cV3Timestamp trap = MaxUint32)
           \<and> (\<forall>v. (Value firstVar = VInt v \<or> Value firstVar = VInt64 v) \<and> sint v < 0
                  \<longrightarrow> V2cV3Timestamp trap = 0)
           \<and> ((\<forall>v. Value firstVar \<noteq> VUint32 v) \<and> (\<forall>v. Value firstVar \<noteq> VUint64 v)
               \<and> (\<forall>v. Value firstVar \<noteq> VInt v) \<and> (\<forall>v. Value firstVar \<noteq> VInt64 v)
                  \<longrightarrow> V2cV3Timestamp trap = 0)"
proof -
  obtain trap where t: "convertToTrapMessage rt p rawPacket = Inr trap"
    and ts: "V2cV3Timestamp trap = sysUpTime_of (Value firstVar)"
    using convertToTrapMessage_timestamp [OF assms] by blast
  have "(\<forall>v. Value firstVar \<noteq> VUint32 v) \<and> (\<forall>v. Value firstVar \<noteq> VUint64 v)
          \<and> (\<forall>v. Value firstVar \<noteq> VInt v) \<and> (\<forall>v. Value firstVar \<noteq> VInt64 v)
        \<longrightarrow> sysUpTime_of (Value firstVar) = 0"
    by (cases "Value firstVar") simp_all
  then show ?thesis
    using t ts by auto
qed

theorem sysUpTime_normalised_witness:
  "V2cV3Timestamp (normalised (trap_v2c_packet (VUint32 12345))) = 12345
   \<and> V2cV3Timestamp (normalised (trap_v2c_packet (VUint64 0x100000000))) = 0xFFFFFFFF
   \<and> V2cV3Timestamp (normalised (trap_v2c_packet (VInt64 0x100000000))) = 0xFFFFFFFF
   \<and> V2cV3Timestamp (normalised (trap_v2c_packet (VInt64 (- 1)))) = 0
   \<and> V2cV3Timestamp (normalised (trap_v2c_packet (VInt (- 5)))) = 0
   \<and> V2cV3Timestamp (normalised (trap_v2c_packet (VString ''up''))) = 0"
proof -
  have v: "Version (trap_v2c_packet v) = Version2c \<or> Version (trap_v2c_packet v) = Version3"
    and vs: "Variables (trap_v2c_packet v) = pdu_of v # []" for v
    by (simp_all add: trap_v2c_packet_def)
  have r: "RemoteAddr (raw_of []) = Some sample_addr"
    by (simp add: raw_of_def)
  have val: "Value (pdu_of v) = v" for v
    by (simp add: pdu_of_def)
  have s1: "sint (0x100000000 :: 64 word) > 0xFFFFFFFF" by simp
  have s2: "sint (- 1 :: 64 word) < 0" by simp
  have s3: "sint (- 5 :: 64 word) < 0" by simp
  have s4: "(0x100000000 :: 64 word) > 0xFFFFFFFF" by simp
  show ?thesis
    using sysUpTime_normalised [OF v [of "VUint32 12345"] vs [of "VUint32 12345"] r, where rt = sample_runtime]
          sysUpTime_normalised [OF v [of "VUint64 0x100000000"] vs [of "VUint64 0x100000000"] r, where rt = sample_runtime]
          sysUpTime_normalised [OF v [of "VInt64 0x100000000"] vs [of "VInt64 0x100000000"] r, where rt = sample_runtime]
          sysUpTime_normalised [OF v [of "VInt64 (- 1)"] vs [of "VInt64 (- 1)"] r, where rt = sample_runtime]
          sysUpTime_normalised [OF v [of "VInt (- 5)"] vs [of "VInt (- 5)"] r, where rt = sample_runtime]
          sysUpTime_normalised [OF v [of "VString ''up''"] vs [of "VString ''up''"] r, where rt = sample_runtime]
          s1 s2 s3 s4
    by (auto simp add: normalised_def val)
qed

text \<open>
  C7. For every decoded v1 packet with fewer than 4 variable bindings (in a raw packet that
  has its remote address), normalisation completes without a panic, the generic-trap and
  the specific-trap fields are 0, and the enterprise OID is left empty.
\<close>

theorem v1_insufficient_variables:
  assumes "Version p = Version1"
    and "length (Variables p) < 4"
    and "RemoteAddr rawPacket = Some addr"
  shows "\<exists>trap. convertToTrapMessage rt p rawPacket = Inr trap
           \<and> V1GenericTrap trap = 0 \<and> V1SpecificTrap trap = 0 \<and> V1EnterpriseOID trap = []"
  using assms
  by (simp add: convertToTrapMessage_def Let_def extractV1Fields_def)

theorem v1_insufficient_variables_witness:
  "convertToTrapMessage sample_runtime
       (trap_v1_packet [pdu_of (VString ''.1.3.6.1.4.1.9.1.1''), pdu_of (VInt 6), pdu_of (VInt 1)])
       (raw_of [])
     = Inr (normalised
         (trap_v1_packet [pdu_of (VString ''.1.3.6.1.4.1.9.1.1''), pdu_of (VInt 6), pdu_of (VInt 1)]))
   \<and> V1GenericTrap (normalised
         (trap_v1_packet [pdu_of (VString ''.1.3.6.1.4.1.9.1.1''), pdu_of (VInt 6), pdu_of (VInt 1)]))
       = 0
   \<and> V1SpecificTrap (normalised
         (trap_v1_packet [pdu_of (VString ''.1.3.6.1.4.1.9.1.1''), pdu_of (VInt 6), pdu_of (VInt 1)]))
       = 0
   \<and> V1EnterpriseOID (normalised
         (trap_v1_packet [pdu_of (VString ''.1.3.6.1.4.1.9.1.1''), pdu_of (VInt 6), pdu_of (VInt 1)]))
       = []"
proof -
  let ?p = "trap_v1_packet [pdu_of (VString ''.1.3.6.1.4.1.9.1.1''), pdu_of (VInt 6), pdu_of (VInt 1)]"
  have v: "Version ?p = Version1" and n: "length (Variables ?p) < 4"
    by (simp_all add: trap_v1_packet_def)
  have r: "RemoteAddr (raw_of []) = Some sample_addr"
    by (simp add: raw_of_def)
  show ?thesis
    using v1_insufficient_variables [OF v n r, where rt = sample_runtime]
    by (auto simp add: normalised_def)
qed

subsection \<open>Server stop\<close>








end
